theory Spec2Isabelle
  imports Main
begin

section \<open>Iron Vault mechanics notation: the inline and the block parser\<close>

text \<open>
  A shallow embedding of \<^verbatim>\<open>iron-vault-inline.ts\<close> and \<^verbatim>\<open>iron-vault-blocks.ts\<close>.

  Strings are \<^typ>\<open>string\<close>, lists of 8-bit characters. An ASCII character of the
  source text is one \<^typ>\<open>char\<close>; the two non-ASCII characters the templates contain
  (the em dash and the arrow) are written as their UTF-8 bytes. The character classes of
  the source (\<^verbatim>\<open>\s\<close>, \<^verbatim>\<open>\d\<close>, \<^verbatim>\<open>trim\<close>, \<^verbatim>\<open>toLowerCase\<close>) are modelled on
  ASCII and leave every byte from 0x80 on alone, so the model is exact on ASCII text.
  Numbers are \<^typ>\<open>int\<close>: the values of \<^verbatim>\<open>parseInt\<close> and their sums are exact
  integers in JavaScript below \<open>2 ^ 53\<close>, and \<^verbatim>\<open>NaN\<close> is \<^const>\<open>None\<close>.
\<close>

subsection \<open>JavaScript strings\<close>

text \<open>\<^verbatim>\<open>s.startsWith(p)\<close>, \<^verbatim>\<open>s.endsWith(p)\<close> and \<^verbatim>\<open>s.includes(p)\<close>.\<close>

fun startsWith :: "string \<Rightarrow> string \<Rightarrow> bool" where
  "startsWith s [] = True"
| "startsWith [] (p # ps) = False"
| "startsWith (c # cs) (p # ps) = (c = p \<and> startsWith cs ps)"

definition endsWith :: "string \<Rightarrow> string \<Rightarrow> bool" where
  "endsWith s p = startsWith (rev s) (rev p)"

fun includesStr :: "string \<Rightarrow> string \<Rightarrow> bool" where
  "includesStr [] p = (p = [])"
| "includesStr (c # cs) p = (startsWith (c # cs) p \<or> includesStr cs p)"

text \<open>
  \<^verbatim>\<open>s.indexOf(c)\<close> and \<^verbatim>\<open>s.lastIndexOf(c)\<close> for a one-character needle, with the
  source's \<open>-1\<close> for "not found".
\<close>

fun indexOf :: "string \<Rightarrow> char \<Rightarrow> int" where
  "indexOf [] c = -1"
| "indexOf (x # xs) c =
     (if x = c then 0 else (let r = indexOf xs c in if r = -1 then -1 else r + 1))"

definition lastIndexOf :: "string \<Rightarrow> char \<Rightarrow> int" where
  "lastIndexOf s c =
     (let r = indexOf (rev s) c in if r = -1 then -1 else int (length s) - 1 - r)"

text \<open>
  \<^verbatim>\<open>s.substring(a, b)\<close>: both indices are clamped to \<open>0 .. length s\<close> and swapped
  when the first is the larger. \<^verbatim>\<open>s.substring(a)\<close> runs to the end.
\<close>

definition substring :: "string \<Rightarrow> int \<Rightarrow> int \<Rightarrow> string" where
  "substring s a b =
     (let n = int (length s);
          a' = max 0 (min a n);
          b' = max 0 (min b n);
          lo = min a' b';
          hi = max a' b'
      in take (nat (hi - lo)) (drop (nat lo) s))"

definition substringFrom :: "string \<Rightarrow> int \<Rightarrow> string" where
  "substringFrom s a = substring s a (int (length s))"

text \<open>\<^verbatim>\<open>\s\<close> and the white space of \<^verbatim>\<open>trim\<close> and \<^verbatim>\<open>parseInt\<close>, on ASCII.\<close>

definition isWhiteSpace :: "char \<Rightarrow> bool" where
  "isWhiteSpace c =
     (c = CHR 0x09 \<or> c = CHR 0x0A \<or> c = CHR 0x0B \<or> c = CHR 0x0C \<or> c = CHR 0x0D
      \<or> c = CHR '' '')"

definition trim :: "string \<Rightarrow> string" where
  "trim s = rev (dropWhile isWhiteSpace (rev (dropWhile isWhiteSpace s)))"

text \<open>
  \<^verbatim>\<open>s.split(sep)\<close> for a separator that matches one character: a one-character
  string, or a character class such as \<^verbatim>\<open>/[/\\]/\<close>. The result is never empty.
\<close>

fun splitBy :: "(char \<Rightarrow> bool) \<Rightarrow> string \<Rightarrow> string list" where
  "splitBy sep [] = [[]]"
| "splitBy sep (c # cs) =
     (if sep c then [] # splitBy sep cs
      else (let r = splitBy sep cs in (c # hd r) # tl r))"

definition split :: "string \<Rightarrow> char \<Rightarrow> string list" where
  "split s c = splitBy (\<lambda>x. x = c) s"

text \<open>\<^verbatim>\<open>xs.join(sep)\<close>.\<close>

fun join :: "string list \<Rightarrow> string \<Rightarrow> string" where
  "join [] sep = []"
| "join [x] sep = x"
| "join (x # y # ys) sep = x @ sep @ join (y # ys) sep"

text \<open>\<^verbatim>\<open>s.replace(/c/g, r)\<close> for a single character \<open>c\<close>.\<close>

definition replaceAllChar :: "string \<Rightarrow> char \<Rightarrow> string \<Rightarrow> string" where
  "replaceAllChar s c r = concat (map (\<lambda>x. if x = c then r else [x]) s)"

text \<open>\<^verbatim>\<open>s.replace(/\.md$/, '')\<close>.\<close>

definition stripMd :: "string \<Rightarrow> string" where
  "stripMd s = (if endsWith s ''.md'' then take (length s - 3) s else s)"

text \<open>\<^verbatim>\<open>s.replace(/\s+/g, '-')\<close>: every maximal run of white space becomes one hyphen.\<close>

function replaceSpaceRuns :: "string \<Rightarrow> string" where
  "replaceSpaceRuns [] = []"
| "replaceSpaceRuns (c # cs) =
     (if isWhiteSpace c then CHR ''-'' # replaceSpaceRuns (dropWhile isWhiteSpace cs)
      else c # replaceSpaceRuns cs)"
  by pat_completeness auto
termination
  by (relation "measure length") (auto simp: le_imp_less_Suc length_dropWhile_le)

text \<open>\<^verbatim>\<open>s.replace(/[()]/g, '')\<close> and \<^verbatim>\<open>s.replace(/'/g, '')\<close>.\<close>

definition stripParens :: "string \<Rightarrow> string" where
  "stripParens s = filter (\<lambda>c. c \<noteq> CHR ''('' \<and> c \<noteq> CHR '')'') s"

definition stripApostrophes :: "string \<Rightarrow> string" where
  "stripApostrophes s = filter (\<lambda>c. c \<noteq> CHR 0x27) s"

text \<open>\<^verbatim>\<open>s.toLowerCase()\<close>, on ASCII.\<close>

definition lowerChar :: "char \<Rightarrow> char" where
  "lowerChar c =
     (let n = (of_char c :: nat) in if 65 \<le> n \<and> n \<le> 90 then char_of (n + 32) else c)"

definition toLowerCase :: "string \<Rightarrow> string" where
  "toLowerCase s = map lowerChar s"

subsection \<open>JavaScript numbers\<close>

text \<open>
  \<^verbatim>\<open>parseInt(s)\<close> with no radix: leading white space is skipped, one sign is read, a
  \<^verbatim>\<open>0x\<close> or \<^verbatim>\<open>0X\<close> prefix selects base 16, and the longest run of digits of the
  base is the value; no digit at all gives \<^verbatim>\<open>NaN\<close>, here \<^const>\<open>None\<close>. The
  value here is the integer the digits denote. The source's is a double: the same number
  up to \<open>2 ^ 53\<close> in magnitude, and a rounded one beyond, so the statements below that
  range over all field lists bound the numbers they read.
\<close>

definition digitValue :: "char \<Rightarrow> nat option" where
  "digitValue c =
     (let n = (of_char c :: nat)
      in if 48 \<le> n \<and> n \<le> 57 then Some (n - 48)
         else if 97 \<le> n \<and> n \<le> 102 then Some (n - 87)
         else if 65 \<le> n \<and> n \<le> 70 then Some (n - 55)
         else None)"

definition isDigitIn :: "nat \<Rightarrow> char \<Rightarrow> bool" where
  "isDigitIn radix c = (case digitValue c of None \<Rightarrow> False | Some d \<Rightarrow> d < radix)"

definition digitsValue :: "nat \<Rightarrow> string \<Rightarrow> nat" where
  "digitsValue radix z = foldl (\<lambda>a c. a * radix + (case digitValue c of None \<Rightarrow> 0 | Some d \<Rightarrow> d)) 0 z"

definition parseInt :: "string \<Rightarrow> int option" where
  "parseInt s =
     (let S = dropWhile isWhiteSpace s;
          sign = (if startsWith S ''-'' then - 1 else (1::int));
          S1 = (if startsWith S ''-'' \<or> startsWith S ''+'' then tl S else S);
          hex = (startsWith S1 ''0x'' \<or> startsWith S1 ''0X'');
          R = (if hex then 16 else 10);
          S2 = (if hex then drop 2 S1 else S1);
          Z = takeWhile (isDigitIn R) S2
      in if Z = [] then None else Some (sign * int (digitsValue R Z)))"

text \<open>
  \<^verbatim>\<open>parts[i]\<close> is \<^verbatim>\<open>undefined\<close> (here \<^const>\<open>None\<close>) from the length of the array on.
  \<^verbatim>\<open>parseInt(undefined)\<close> parses the text \<^verbatim>\<open>undefined\<close>.
\<close>

definition nth_opt :: "'a list \<Rightarrow> nat \<Rightarrow> 'a option" where
  "nth_opt xs i = (if i < length xs then Some (xs ! i) else None)"

definition parseIntU :: "string option \<Rightarrow> int option" where
  "parseIntU x = (case x of None \<Rightarrow> parseInt ''undefined'' | Some s \<Rightarrow> parseInt s)"

text \<open>
  \<^verbatim>\<open>x || d\<close>: the default replaces every falsy value; for a string that is
  \<^verbatim>\<open>undefined\<close> and the empty string, for a number \<^verbatim>\<open>NaN\<close> and zero.
\<close>

definition orStr :: "string option \<Rightarrow> string \<Rightarrow> string" where
  "orStr x d = (case x of None \<Rightarrow> d | Some s \<Rightarrow> if s = [] then d else s)"

definition orNum :: "int option \<Rightarrow> int \<Rightarrow> int" where
  "orNum x d = (case x of None \<Rightarrow> d | Some n \<Rightarrow> if n = 0 then d else n)"

text \<open>A number inside a template literal: its decimal digits, with a minus sign.\<close>

definition digitChar :: "nat \<Rightarrow> char" where
  "digitChar d = char_of (48 + d)"

fun showNat :: "nat \<Rightarrow> string" where
  "showNat n = (if n < 10 then [digitChar n] else showNat (n div 10) @ [digitChar (n mod 10)])"

declare showNat.simps [simp del]

definition showInt :: "int \<Rightarrow> string" where
  "showInt n = (if n < 0 then CHR ''-'' # showNat (nat (- n)) else showNat (nat n))"

subsection \<open>The outcome engine\<close>

datatype outcome = StrongHit | WeakHit | Miss

text \<open>\<^verbatim>\<open>getOutcome\<close> of the inline parser.\<close>

definition getOutcome :: "int \<Rightarrow> int \<Rightarrow> int \<Rightarrow> outcome" where
  "getOutcome score vs1 vs2 =
     (if score > vs1 \<and> score > vs2 then StrongHit
      else if score > vs1 \<or> score > vs2 then WeakHit
      else Miss)"

text \<open>\<^verbatim>\<open>getOutcome\<close> of the block parser, a second copy of the same text.\<close>

definition getOutcome_block :: "int \<Rightarrow> int \<Rightarrow> int \<Rightarrow> outcome" where
  "getOutcome_block score vs1 vs2 =
     (if score > vs1 \<and> score > vs2 then StrongHit
      else if score > vs1 \<or> score > vs2 then WeakHit
      else Miss)"

definition isMatch :: "int \<Rightarrow> int \<Rightarrow> bool" where
  "isMatch vs1 vs2 = (vs1 = vs2)"

text \<open>The tier as the text the templates insert.\<close>

fun outcome_text :: "outcome \<Rightarrow> string" where
  "outcome_text StrongHit = ''strong-hit''"
| "outcome_text WeakHit = ''weak-hit''"
| "outcome_text Miss = ''miss''"

subsection \<open>The inline parser: icons\<close>

text \<open>The table \<^verbatim>\<open>ICONS\<close>, one constant for each entry.\<close>

definition ICONS_sparkles :: string where
  \<open>ICONS_sparkles =
     ''<svg xmlns="http://www.w3.org/2000/svg" width="24" height="24" viewBox="0 0 24 24" fill="none" stroke="currentColor" stroke-width="2" stroke-linecap="round" stroke-linejoin="round"><path d="M9.937 15.5A2 2 0 0 0 8.5 14.063l-6.135-1.582a.5.5 0 0 1 0-.962L8.5 9.936A2 2 0 0 0 9.937 8.5l1.582-6.135a.5.5 0 0 1 .963 0L14.063 8.5A2 2 0 0 0 15.5 9.937l6.135 1.581a.5.5 0 0 1 0 .964L15.5 14.063a2 2 0 0 0-1.437 1.437l-1.582 6.135a.5.5 0 0 1-.963 0z"></path><path d="M20 3v4"></path><path d="M22 5h-4"></path><path d="M4 17v2"></path><path d="M5 18H3"></path></svg>''\<close>

definition ICONS_squareStack :: string where
  \<open>ICONS_squareStack =
     ''<svg xmlns="http://www.w3.org/2000/svg" width="24" height="24" viewBox="0 0 24 24" fill="none" stroke="currentColor" stroke-width="2" stroke-linecap="round" stroke-linejoin="round"><path d="M4 10c-1.1 0-2-.9-2-2V4c0-1.1.9-2 2-2h4c1.1 0 2 .9 2 2"></path><path d="M10 16c-1.1 0-2-.9-2-2v-4c0-1.1.9-2 2-2h4c1.1 0 2 .9 2 2"></path><rect x="14" y="14" width="8" height="8" rx="2"></rect></svg>''\<close>

definition ICONS_copyCheck :: string where
  \<open>ICONS_copyCheck =
     ''<svg xmlns="http://www.w3.org/2000/svg" width="24" height="24" viewBox="0 0 24 24" fill="none" stroke="currentColor" stroke-width="2" stroke-linecap="round" stroke-linejoin="round"><path d="m12 15 2 2 4-4"></path><rect x="8" y="8" width="14" height="14" rx="2" ry="2"></rect><path d="M4 16c-1.1 0-2-.9-2-2V4c0-1.1.9-2 2-2h10c1.1 0 2 .9 2 2"></path></svg>''\<close>

definition ICONS_squareCheckBig :: string where
  \<open>ICONS_squareCheckBig =
     ''<svg xmlns="http://www.w3.org/2000/svg" width="24" height="24" viewBox="0 0 24 24" fill="none" stroke="currentColor" stroke-width="2" stroke-linecap="round" stroke-linejoin="round"><path d="m9 11 3 3L22 4"></path><path d="M21 12v7a2 2 0 0 1-2 2H5a2 2 0 0 1-2-2V5a2 2 0 0 1 2-2h11"></path></svg>''\<close>

definition ICONS_rotateCcw :: string where
  \<open>ICONS_rotateCcw =
     ''<svg xmlns="http://www.w3.org/2000/svg" width="24" height="24" viewBox="0 0 24 24" fill="none" stroke="currentColor" stroke-width="2" stroke-linecap="round" stroke-linejoin="round"><path d="M3 12a9 9 0 1 0 9-9 9.75 9.75 0 0 0-6.74 2.74L3 8"></path><path d="M3 3v5h5"></path></svg>''\<close>

definition ICONS_filePlus :: string where
  \<open>ICONS_filePlus =
     ''<svg xmlns="http://www.w3.org/2000/svg" width="24" height="24" viewBox="0 0 24 24" fill="none" stroke="currentColor" stroke-width="2" stroke-linecap="round" stroke-linejoin="round"><path d="M15 2H6a2 2 0 0 0-2 2v16a2 2 0 0 0 2 2h12a2 2 0 0 0 2-2V7Z"></path><path d="M14 2v4a2 2 0 0 0 2 2h4"></path><path d="M9 15h6"></path><path d="M12 18v-6"></path></svg>''\<close>

definition ICONS_filePenLine :: string where
  \<open>ICONS_filePenLine =
     ''<svg xmlns="http://www.w3.org/2000/svg" width="24" height="24" viewBox="0 0 24 24" fill="none" stroke="currentColor" stroke-width="2" stroke-linecap="round" stroke-linejoin="round"><path d="m18 5-2.414-2.414A2 2 0 0 0 14.172 2H6a2 2 0 0 0-2 2v16a2 2 0 0 0 2 2h12a2 2 0 0 0 2-2"></path><path d="M21.378 12.626a1 1 0 0 0-3.004-3.004l-4.01 4.012a2 2 0 0 0-.506.854l-.837 2.87a.5.5 0 0 0 .62.62l2.87-.837a2 2 0 0 0 .854-.506z"></path><path d="M8 18h1"></path></svg>''\<close>

definition ICONS_clock :: string where
  \<open>ICONS_clock =
     ''<svg xmlns="http://www.w3.org/2000/svg" width="24" height="24" viewBox="0 0 24 24" fill="none" stroke="currentColor" stroke-width="2" stroke-linecap="round" stroke-linejoin="round"><circle cx="12" cy="12" r="10"></circle><polyline points="12 6 12 12 16 14"></polyline></svg>''\<close>

definition ICONS_clockArrowUp :: string where
  \<open>ICONS_clockArrowUp =
     ''<svg xmlns="http://www.w3.org/2000/svg" width="24" height="24" viewBox="0 0 24 24" fill="none" stroke="currentColor" stroke-width="2" stroke-linecap="round" stroke-linejoin="round"><path d="M13.228 21.925A10 10 0 1 1 21.994 12.338"></path><path d="M12 6v6l1.562.781"></path><path d="m17 22 5-5"></path><path d="m17 17 5 5"></path></svg>''\<close>

definition ICONS_circleCheckBig :: string where
  \<open>ICONS_circleCheckBig =
     ''<svg xmlns="http://www.w3.org/2000/svg" width="24" height="24" viewBox="0 0 24 24" fill="none" stroke="currentColor" stroke-width="2" stroke-linecap="round" stroke-linejoin="round"><path d="M21.801 10A10 10 0 1 1 17 3.335"></path><path d="m9 11 3 3L22 4"></path></svg>''\<close>

definition ICONS_trendingUp :: string where
  \<open>ICONS_trendingUp =
     ''<svg xmlns="http://www.w3.org/2000/svg" width="24" height="24" viewBox="0 0 24 24" fill="none" stroke="currentColor" stroke-width="2" stroke-linecap="round" stroke-linejoin="round"><polyline points="22 7 13.5 15.5 8.5 10.5 2 17"></polyline><polyline points="16 7 22 7 22 13"></polyline></svg>''\<close>

definition ICONS_trendingDown :: string where
  \<open>ICONS_trendingDown =
     ''<svg xmlns="http://www.w3.org/2000/svg" width="24" height="24" viewBox="0 0 24 24" fill="none" stroke="currentColor" stroke-width="2" stroke-linecap="round" stroke-linejoin="round"><polyline points="22 17 13.5 8.5 8.5 13.5 2 7"></polyline><polyline points="16 17 22 17 22 11"></polyline></svg>''\<close>

definition ICONS_flame :: string where
  \<open>ICONS_flame =
     ''<svg xmlns="http://www.w3.org/2000/svg" width="24" height="24" viewBox="0 0 24 24" fill="none" stroke="currentColor" stroke-width="2" stroke-linecap="round" stroke-linejoin="round"><path d="M8.5 14.5A2.5 2.5 0 0 0 11 12c0-1.38-.5-2-1-3-1.072-2.143-.224-4.054 2-6 .5 2.5 2 4.9 4 6.5 2 1.6 3 3.5 3 5.5a7 7 0 1 1-14 0c0-1.153.433-2.294 1-3a2.5 2.5 0 0 0 2.5 2.5z"></path></svg>''\<close>

definition ICONS_footprints :: string where
  \<open>ICONS_footprints =
     ''<svg xmlns="http://www.w3.org/2000/svg" width="24" height="24" viewBox="0 0 24 24" fill="none" stroke="currentColor" stroke-width="2" stroke-linecap="round" stroke-linejoin="round"><path d="M4 16v-2.38C4 11.5 2.97 10.5 3 8c.03-2.72 1.49-6 4.5-6C9.37 2 10 3.8 10 5.5c0 3.11-2 5.66-2 8.68V16a2 2 0 1 1-4 0Z"></path><path d="M20 20v-2.38c0-2.12 1.03-3.12 1-5.62-.03-2.72-1.49-6-4.5-6C14.63 6 14 7.8 14 9.5c0 3.11 2 5.66 2 8.68V20a2 2 0 1 0 4 0Z"></path><path d="M16 17h4"></path><path d="M4 13h4"></path></svg>''\<close>

definition ICONS_dices :: string where
  \<open>ICONS_dices =
     ''<svg xmlns="http://www.w3.org/2000/svg" width="24" height="24" viewBox="0 0 24 24" fill="none" stroke="currentColor" stroke-width="2" stroke-linecap="round" stroke-linejoin="round"><rect width="12" height="12" x="2" y="10" rx="2" ry="2"></rect><path d="m17.92 14 3.5-3.5a2.24 2.24 0 0 0 0-3l-5-4.92a2.24 2.24 0 0 0-3 0L10 6"></path><path d="M6 18h.01"></path><path d="M10 14h.01"></path><path d="M15 6h.01"></path><path d="M18 9h.01"></path></svg>''\<close>

definition ICONS_messageCircle :: string where
  \<open>ICONS_messageCircle =
     ''<svg xmlns="http://www.w3.org/2000/svg" width="24" height="24" viewBox="0 0 24 24" fill="none" stroke="currentColor" stroke-width="2" stroke-linecap="round" stroke-linejoin="round"><path d="M7.9 20A9 9 0 1 0 4 16.1L2 22Z"></path></svg>''\<close>

definition ICONS_skull :: string where
  \<open>ICONS_skull =
     ''<svg xmlns="http://www.w3.org/2000/svg" width="24" height="24" viewBox="0 0 24 24" fill="none" stroke="currentColor" stroke-width="2" stroke-linecap="round" stroke-linejoin="round"><circle cx="9" cy="12" r="1"></circle><circle cx="15" cy="12" r="1"></circle><path d="M8 20v2h8v-2"></path><path d="m12.5 17-.5-1-.5 1h1z"></path><path d="M16 20a2 2 0 0 0 1.56-3.25 8 8 0 1 0-11.12 0A2 2 0 0 0 8 20"></path></svg>''\<close>

subsection \<open>The inline parser\<close>

text \<open>\<^verbatim>\<open>FileInfo\<close>, the value type of the optional lookup table.\<close>

record FileInfo =
  file_slug :: string
  file_title :: string
  file_path :: string

text \<open>The em dash and the arrow of the templates, as UTF-8 bytes.\<close>

definition emdash :: string where
  "emdash = [CHR 0xE2, CHR 0x80, CHR 0x94]"

definition arrow :: string where
  "arrow = [CHR 0xE2, CHR 0x86, CHR 0x92]"

text \<open>\<^verbatim>\<open>escapeHtml\<close> of the inline parser: four replacements, in this order.\<close>

definition escapeHtml :: "string \<Rightarrow> string" where
  \<open>escapeHtml text0 =
     replaceAllChar
       (replaceAllChar
          (replaceAllChar
             (replaceAllChar text0 (CHR ''&'') ''&amp;'')
             (CHR ''<'') ''&lt;'')
          (CHR ''>'') ''&gt;'')
       (CHR 0x22) ''&quot;''\<close>

text \<open>\<^verbatim>\<open>pathToSlug\<close> of the inline parser.\<close>

definition pathToSlug :: "string \<Rightarrow> string" where
  "pathToSlug path =
     (if path = [] then ''#''
      else stripApostrophes (stripParens (replaceSpaceRuns (toLowerCase (stripMd path)))))"

text \<open>
  \<^verbatim>\<open>resolvePathToSlug\<close>: the table, when there is one, is asked for the lower-cased
  file name; a hit returns the stored slug as it is.
\<close>

definition resolvePathToSlug :: "string \<Rightarrow> (string \<rightharpoonup> FileInfo) option \<Rightarrow> string" where
  "resolvePathToSlug path filesByName =
     (if path = [] then ''#''
      else
        (let filename = orStr (Some (last (splitBy (\<lambda>c. c = CHR ''/'' \<or> c = CHR 0x5C) (stripMd path)))) [];
             lookupKey = toLowerCase filename
         in case filesByName of
              None \<Rightarrow> pathToSlug path
            | Some files \<Rightarrow>
                (case files lookupKey of
                   Some file \<Rightarrow> file_slug file
                 | None \<Rightarrow> pathToSlug path)))"

definition renderMove :: "string \<Rightarrow> string" where
  \<open>renderMove content =
     (let parts = split content (CHR ''|'');
          name = orStr (nth_opt parts 0) [];
          stat = orStr (nth_opt parts 1) [];
          action = orNum (parseIntU (nth_opt parts 2)) 0;
          statValue = orNum (parseIntU (nth_opt parts 3)) 0;
          adds = orNum (parseIntU (nth_opt parts 4)) 0;
          vs1 = orNum (parseIntU (nth_opt parts 5)) 0;
          vs2 = orNum (parseIntU (nth_opt parts 6)) 0;
          score = min 10 (action + statValue + adds);
          outcome = getOutcome score vs1 vs2;
          match = isMatch vs1 vs2;
          classes = [''iv-inline-mechanics'', outcome_text outcome] @ (if match then [''match''] else [])
      in ''<span class="'' @ join classes '' '' @ ''">'' @
         ''<span class="iv-inline-outcome-icon"></span>'' @
         ''<span class="iv-inline-move-name iv-inline-link">'' @ escapeHtml name @ ''</span>'' @
         ''<span class="iv-inline-stat">('' @ escapeHtml stat @ '')</span>'' @
         ''<span class="iv-inline-separator">'' @ emdash @ ''</span>'' @
         ''<span class="iv-inline-score">'' @ showInt score @ ''</span>'' @
         ''<span> vs </span>'' @
         ''<span class="iv-inline-challenge-die vs1">'' @ showInt vs1 @ ''</span>'' @
         ''<span>|</span>'' @
         ''<span class="iv-inline-challenge-die vs2">'' @ showInt vs2 @ ''</span>'' @
         (if match then ''<span class="iv-inline-match">match</span>'' else []) @
         ''</span>'')\<close>

definition renderOracle :: "string \<Rightarrow> string" where
  \<open>renderOracle content =
     (let parts = split content (CHR ''|'');
          name = orStr (nth_opt parts 0) [];
          roll = orStr (nth_opt parts 1) [];
          result = orStr (nth_opt parts 2) []
      in ''<span class="iv-inline-mechanics oracle">'' @
         ''<span class="iv-inline-oracle-icon">'' @ ICONS_sparkles @ ''</span>'' @
         ''<span class="iv-inline-oracle-name iv-inline-link">'' @ escapeHtml name @ ''</span>'' @
         ''<span>('' @ roll @ '')</span>'' @
         ''<span class="iv-inline-oracle-result">'' @ escapeHtml result @ ''</span>'' @
         ''</span>'')\<close>

definition renderMeter :: "string \<Rightarrow> string" where
  \<open>renderMeter content =
     (let parts = split content (CHR ''|'');
          name = orStr (nth_opt parts 0) [];
          fromVal = orNum (parseIntU (nth_opt parts 1)) 0;
          to = orNum (parseIntU (nth_opt parts 2)) 0;
          delta = to - fromVal;
          meterClass = (if delta > 0 then ''meter-increase''
                        else if delta < 0 then ''meter-decrease'' else []);
          icon = (if delta \<ge> 0 then ICONS_trendingUp else ICONS_trendingDown)
      in ''<span class="iv-inline-mechanics '' @ meterClass @ ''">'' @
         ''<span class="iv-inline-meter-icon">'' @ icon @ ''</span>'' @
         ''<span class="iv-inline-meter-name">'' @ escapeHtml name @ '':</span>'' @
         ''<span class="iv-inline-meter-change">'' @ showInt fromVal @ '' '' @ arrow @ '' '' @
           showInt to @ ''</span>'' @
         ''</span>'')\<close>

definition renderBurn :: "string \<Rightarrow> string" where
  \<open>renderBurn content =
     (let parts = split content (CHR ''|'');
          fromVal = orNum (parseIntU (nth_opt parts 0)) 0;
          to = orNum (parseIntU (nth_opt parts 1)) 0
      in ''<span class="iv-inline-mechanics burn">'' @
         ''<span class="iv-inline-burn-icon">'' @ ICONS_flame @ ''</span>'' @
         ''<span class="iv-inline-burn-label">Burn:</span>'' @
         ''<span class="iv-inline-burn-change">'' @ showInt fromVal @ '' '' @ arrow @ '' '' @
           showInt to @ ''</span>'' @
         ''</span>'')\<close>

text \<open>
  The class of \<^verbatim>\<open>renderInitiative\<close>, the \<^verbatim>\<open>if\<close> chain on the lower-cased
  \<^verbatim>\<open>to\<close> value.
\<close>

definition initClass :: "string \<Rightarrow> string" where
  "initClass to =
     (let toLower = toLowerCase to
      in if includesStr toLower ''control'' \<or> includesStr toLower ''initiative''
           then ''initiative-in-control''
         else if includesStr toLower ''bad'' \<or> includesStr toLower ''no''
           then ''initiative-bad-spot''
         else if includesStr toLower ''out''
           then ''initiative-out-of-combat''
         else ''initiative'')"

definition renderInitiative :: "string \<Rightarrow> string" where
  \<open>renderInitiative content =
     (let parts = split content (CHR ''|'');
          from = orStr (nth_opt parts 0) [];
          to = orStr (nth_opt parts 1) (orStr (nth_opt parts 0) [])
      in ''<span class="iv-inline-mechanics '' @ initClass to @ ''">'' @
         ''<span class="iv-inline-initiative-icon">'' @ ICONS_footprints @ ''</span>'' @
         ''<span class="iv-inline-initiative-label">Position:</span>'' @
         ''<span class="iv-inline-initiative-change">'' @ escapeHtml from @ '' '' @ arrow @ '' '' @
           escapeHtml to @ ''</span>'' @
         ''</span>'')\<close>

definition renderTrackCreate :: "string \<Rightarrow> (string \<rightharpoonup> FileInfo) option \<Rightarrow> string" where
  \<open>renderTrackCreate content filesByName =
     (let parts = split content (CHR ''|'');
          name = orStr (nth_opt parts 0) [];
          path = orStr (nth_opt parts 1) [];
          slug = resolvePathToSlug path filesByName
      in ''<span class="iv-inline-mechanics track-create">'' @
         ''<span class="iv-inline-track-icon">'' @ ICONS_squareStack @ ''</span>'' @
         ''<a href="/'' @ slug @ ''" class="iv-inline-track-name iv-inline-link">'' @
           escapeHtml name @ ''</a>'' @
         ''</span>'')\<close>

definition renderTrackAdvance :: "string \<Rightarrow> (string \<rightharpoonup> FileInfo) option \<Rightarrow> string" where
  \<open>renderTrackAdvance content filesByName =
     (let parts = split content (CHR ''|'');
          name = orStr (nth_opt parts 0) [];
          path = orStr (nth_opt parts 1) [];
          to = orNum (parseIntU (nth_opt parts 3)) 0;
          steps = orNum (parseIntU (nth_opt parts 5)) 1;
          slug = resolvePathToSlug path filesByName;
          boxes = to div 4
      in ''<span class="iv-inline-mechanics track-advance">'' @
         ''<span class="iv-inline-track-icon">'' @ ICONS_copyCheck @ ''</span>'' @
         ''<a href="/'' @ slug @ ''" class="iv-inline-track-name iv-inline-link">'' @
           escapeHtml name @ ''</a>'' @
         ''<span class="iv-inline-track-progress"> +'' @ showInt steps @ '' ('' @ showInt boxes @
           ''/10)</span>'' @
         ''</span>'')\<close>

definition renderTrackComplete :: "string \<Rightarrow> (string \<rightharpoonup> FileInfo) option \<Rightarrow> string" where
  \<open>renderTrackComplete content filesByName =
     (let parts = split content (CHR ''|'');
          name = orStr (nth_opt parts 0) [];
          path = orStr (nth_opt parts 1) [];
          slug = resolvePathToSlug path filesByName
      in ''<span class="iv-inline-mechanics track-complete">'' @
         ''<span class="iv-inline-track-icon">'' @ ICONS_squareCheckBig @ ''</span>'' @
         ''<a href="/'' @ slug @ ''" class="iv-inline-track-name iv-inline-link">'' @
           escapeHtml name @ ''</a>'' @
         ''<span class="iv-inline-track-status">completed</span>'' @
         ''</span>'')\<close>

definition renderProgressRoll :: "string \<Rightarrow> (string \<rightharpoonup> FileInfo) option \<Rightarrow> string" where
  \<open>renderProgressRoll content filesByName =
     (let parts = split content (CHR ''|'');
          name = orStr (nth_opt parts 0) [];
          progress = orNum (parseIntU (nth_opt parts 1)) 0;
          vs1 = orNum (parseIntU (nth_opt parts 2)) 0;
          vs2 = orNum (parseIntU (nth_opt parts 3)) 0;
          path = orStr (nth_opt parts 4) [];
          outcome = getOutcome progress vs1 vs2;
          match = isMatch vs1 vs2;
          slug = (if path \<noteq> [] then resolvePathToSlug path filesByName else []);
          classes = [''iv-inline-mechanics'', outcome_text outcome] @ (if match then [''match''] else [])
      in ''<span class="'' @ join classes '' '' @ ''">'' @
         ''<span class="iv-inline-outcome-icon"></span>'' @
         ''<span class="iv-inline-progress-name iv-inline-link">'' @ escapeHtml name @ ''</span>'' @
         (if slug \<noteq> []
          then ''<a href="/'' @ slug @ ''" class="iv-inline-progress-track iv-inline-link">(track)</a>''
          else []) @
         ''<span class="iv-inline-separator">'' @ emdash @ ''</span>'' @
         ''<span class="iv-inline-score">'' @ showInt progress @ ''</span>'' @
         ''<span> vs </span>'' @
         ''<span class="iv-inline-challenge-die vs1">'' @ showInt vs1 @ ''</span>'' @
         ''<span>|</span>'' @
         ''<span class="iv-inline-challenge-die vs2">'' @ showInt vs2 @ ''</span>'' @
         (if match then ''<span class="iv-inline-match">match</span>'' else []) @
         ''</span>'')\<close>

definition renderNoRoll :: "string \<Rightarrow> string" where
  \<open>renderNoRoll content =
     (let parts = split content (CHR ''|'');
          name = orStr (nth_opt parts 0) []
      in ''<span class="iv-inline-mechanics no-roll">'' @
         ''<span class="iv-inline-noroll-icon">'' @ ICONS_filePenLine @ ''</span>'' @
         ''<span class="iv-inline-move-name iv-inline-link">'' @ escapeHtml name @ ''</span>'' @
         ''</span>'')\<close>

definition renderEntityCreate :: "string \<Rightarrow> (string \<rightharpoonup> FileInfo) option \<Rightarrow> string" where
  \<open>renderEntityCreate content filesByName =
     (let parts = split content (CHR ''|'');
          type = orStr (nth_opt parts 0) [];
          name = orStr (nth_opt parts 1) [];
          path = orStr (nth_opt parts 2) [];
          slug = resolvePathToSlug path filesByName
      in ''<span class="iv-inline-mechanics entity-create">'' @
         ''<span class="iv-inline-entity-icon">'' @ ICONS_filePlus @ ''</span>'' @
         ''<span class="iv-inline-entity-type">'' @ escapeHtml type @ '':</span>'' @
         ''<a href="/'' @ slug @ ''" class="iv-inline-entity-name iv-inline-link">'' @
           escapeHtml name @ ''</a>'' @
         ''</span>'')\<close>

definition renderClockCreate :: "string \<Rightarrow> (string \<rightharpoonup> FileInfo) option \<Rightarrow> string" where
  \<open>renderClockCreate content filesByName =
     (let parts = split content (CHR ''|'');
          name = orStr (nth_opt parts 0) [];
          segments = orStr (nth_opt parts 1) [];
          path = orStr (nth_opt parts 2) [];
          slug = resolvePathToSlug path filesByName
      in ''<span class="iv-inline-mechanics clock-create">'' @
         ''<span class="iv-inline-clock-icon">'' @ ICONS_clock @ ''</span>'' @
         ''<a href="/'' @ slug @ ''" class="iv-inline-clock-name iv-inline-link">'' @
           escapeHtml name @ ''</a>'' @
         ''<span class="iv-inline-clock-progress">(0/'' @ segments @ '')</span>'' @
         ''</span>'')\<close>

definition renderClockAdvance :: "string \<Rightarrow> (string \<rightharpoonup> FileInfo) option \<Rightarrow> string" where
  \<open>renderClockAdvance content filesByName =
     (let parts = split content (CHR ''|'');
          name = orStr (nth_opt parts 0) [];
          from = orStr (nth_opt parts 1) ''0'';
          to = orStr (nth_opt parts 2) ''0'';
          segments = orStr (nth_opt parts 3) [];
          path = orStr (nth_opt parts 4) [];
          slug = resolvePathToSlug path filesByName
      in ''<span class="iv-inline-mechanics clock-advance">'' @
         ''<span class="iv-inline-clock-icon">'' @ ICONS_clockArrowUp @ ''</span>'' @
         ''<a href="/'' @ slug @ ''" class="iv-inline-clock-name iv-inline-link">'' @
           escapeHtml name @ ''</a>'' @
         ''<span class="iv-inline-clock-progress">'' @ from @ '' '' @ arrow @ '' '' @ to @ ''/'' @
           segments @ ''</span>'' @
         ''</span>'')\<close>

definition renderClockResolve :: "string \<Rightarrow> (string \<rightharpoonup> FileInfo) option \<Rightarrow> string" where
  \<open>renderClockResolve content filesByName =
     (let parts = split content (CHR ''|'');
          name = orStr (nth_opt parts 0) [];
          path = orStr (nth_opt parts 1) [];
          slug = resolvePathToSlug path filesByName
      in ''<span class="iv-inline-mechanics clock-resolve">'' @
         ''<span class="iv-inline-clock-icon">'' @ ICONS_circleCheckBig @ ''</span>'' @
         ''<a href="/'' @ slug @ ''" class="iv-inline-clock-name iv-inline-link">'' @
           escapeHtml name @ ''</a>'' @
         ''<span class="iv-inline-clock-status">resolved</span>'' @
         ''</span>'')\<close>

definition renderDice :: "string \<Rightarrow> string" where
  \<open>renderDice content =
     (let parts = split content (CHR ''|'');
          expression = orStr (nth_opt parts 0) [];
          result = orStr (nth_opt parts 1) []
      in ''<span class="iv-inline-mechanics dice-roll">'' @
         ''<span class="iv-inline-dice-icon">'' @ ICONS_dices @ ''</span>'' @
         ''<span class="iv-inline-dice-expression">'' @ escapeHtml expression @ ''</span>'' @
         ''<span class="iv-inline-dice-arrow">'' @ arrow @ ''</span>'' @
         ''<span class="iv-inline-dice-result">'' @ escapeHtml result @ ''</span>'' @
         ''</span>'')\<close>

definition renderOOC :: "string \<Rightarrow> string" where
  \<open>renderOOC content =
     ''<span class="iv-inline-mechanics ooc">'' @
     ''<span class="iv-inline-ooc-icon">'' @ ICONS_messageCircle @ ''</span>'' @
     ''<span class="iv-inline-ooc-text">'' @ escapeHtml content @ ''</span>'' @
     ''</span>''\<close>

text \<open>
  \<^verbatim>\<open>parseInlineMechanic\<close>; the source's \<^verbatim>\<open>null\<close> is \<^const>\<open>None\<close>.
\<close>

definition parseInlineMechanic :: "string \<Rightarrow> (string \<rightharpoonup> FileInfo) option \<Rightarrow> string option" where
  "parseInlineMechanic code filesByName =
     (if \<not> startsWith code ''iv-'' then None
      else
        (let colonIndex = indexOf code (CHR '':'')
         in if colonIndex = - 1 then None
            else
              (let type = substring code 0 colonIndex;
                   content = substringFrom code (colonIndex + 1)
               in if type = ''iv-move'' then Some (renderMove content)
                  else if type = ''iv-oracle'' then Some (renderOracle content)
                  else if type = ''iv-meter'' then Some (renderMeter content)
                  else if type = ''iv-burn'' then Some (renderBurn content)
                  else if type = ''iv-initiative'' then Some (renderInitiative content)
                  else if type = ''iv-track-create'' then Some (renderTrackCreate content filesByName)
                  else if type = ''iv-track-advance'' then Some (renderTrackAdvance content filesByName)
                  else if type = ''iv-track-complete'' then Some (renderTrackComplete content filesByName)
                  else if type = ''iv-progress'' then Some (renderProgressRoll content filesByName)
                  else if type = ''iv-noroll'' then Some (renderNoRoll content)
                  else if type = ''iv-entity-create'' then Some (renderEntityCreate content filesByName)
                  else if type = ''iv-clock-create'' then Some (renderClockCreate content filesByName)
                  else if type = ''iv-clock-advance'' then Some (renderClockAdvance content filesByName)
                  else if type = ''iv-clock-resolve'' then Some (renderClockResolve content filesByName)
                  else if type = ''iv-dice'' then Some (renderDice content)
                  else if type = ''iv-ooc'' then Some (renderOOC content)
                  else None)))"

text \<open>The sixteen kind tags of the inline notation, in the order of the dispatch.\<close>

definition inline_kinds :: "string list" where
  "inline_kinds =
     [''iv-move'', ''iv-oracle'', ''iv-meter'', ''iv-burn'', ''iv-initiative'',
      ''iv-track-create'', ''iv-track-advance'', ''iv-track-complete'', ''iv-progress'',
      ''iv-noroll'', ''iv-entity-create'', ''iv-clock-create'', ''iv-clock-advance'',
      ''iv-clock-resolve'', ''iv-dice'', ''iv-ooc'']"

subsection \<open>The block parser: escaping and slugs\<close>

text \<open>\<^verbatim>\<open>s.replace(/\\\//g, '/')\<close>: a backslash before a slash is dropped.\<close>

fun unescapeSlashes :: "string \<Rightarrow> string" where
  "unescapeSlashes (a # b # cs) =
     (if a = CHR 0x5C \<and> b = CHR ''/'' then CHR ''/'' # unescapeSlashes cs
      else a # unescapeSlashes (b # cs))"
| "unescapeSlashes cs = cs"

text \<open>\<^verbatim>\<open>escapeHtml\<close> of the block parser: the unescape first, then the four replacements.\<close>

definition escapeHtml_block :: "string \<Rightarrow> string" where
  \<open>escapeHtml_block text0 =
     replaceAllChar
       (replaceAllChar
          (replaceAllChar
             (replaceAllChar (unescapeSlashes text0) (CHR ''&'') ''&amp;'')
             (CHR ''<'') ''&lt;'')
          (CHR ''>'') ''&gt;'')
       (CHR 0x22) ''&quot;''\<close>

text \<open>\<^verbatim>\<open>pathToSlug\<close> of the block parser.\<close>

definition pathToSlug_block :: "string \<Rightarrow> string" where
  "pathToSlug_block path =
     (if path = [] then ''#''
      else
        (let cleanPath1 = unescapeSlashes path;
             cleanPath2 = stripMd cleanPath1;
             cleanPath3 = stripApostrophes (stripParens (replaceSpaceRuns (toLowerCase cleanPath2)));
             cleanPath4 = dropWhile (\<lambda>c. c = CHR ''/'') cleanPath3
         in CHR ''/'' # cleanPath4))"

subsection \<open>The inline notation as the specification reads it\<close>

text \<open>The kinds of the inline notation and the tag of each.\<close>

datatype inline_kind =
  Move | Oracle | Meter | Burn | Initiative | TrackCreate | TrackAdvance | TrackComplete
  | ProgressRoll | NoRoll | EntityCreate | ClockCreate | ClockAdvance | ClockResolve
  | Dice | OOC

fun kind_tag :: "inline_kind \<Rightarrow> string" where
  "kind_tag Move = ''iv-move''"
| "kind_tag Oracle = ''iv-oracle''"
| "kind_tag Meter = ''iv-meter''"
| "kind_tag Burn = ''iv-burn''"
| "kind_tag Initiative = ''iv-initiative''"
| "kind_tag TrackCreate = ''iv-track-create''"
| "kind_tag TrackAdvance = ''iv-track-advance''"
| "kind_tag TrackComplete = ''iv-track-complete''"
| "kind_tag ProgressRoll = ''iv-progress''"
| "kind_tag NoRoll = ''iv-noroll''"
| "kind_tag EntityCreate = ''iv-entity-create''"
| "kind_tag ClockCreate = ''iv-clock-create''"
| "kind_tag ClockAdvance = ''iv-clock-advance''"
| "kind_tag ClockResolve = ''iv-clock-resolve''"
| "kind_tag Dice = ''iv-dice''"
| "kind_tag OOC = ''iv-ooc''"

text \<open>The fields of a code: the text after the colon, split at the pipes.\<close>

definition code_fields :: "string \<Rightarrow> string list" where
  "code_fields content = split content (CHR ''|'')"






















text \<open>
  An initiative code as the specification reads it: the from value is the first field,
  the to value is the second field, and the first one when the second is missing or
  empty; the markup for a class, a from value and a to value.
\<close>

definition initiative_from :: "string \<Rightarrow> string" where
  "initiative_from content = hd (code_fields content)"

definition initiative_to :: "string \<Rightarrow> string" where
  "initiative_to content =
     (let parts = code_fields content
      in if 1 < length parts \<and> parts ! 1 \<noteq> [] then parts ! 1 else hd parts)"

definition initiative_span :: "string \<Rightarrow> string \<Rightarrow> string \<Rightarrow> string" where
  \<open>initiative_span cls from to =
     ''<span class="iv-inline-mechanics '' @ cls @ ''">'' @
     ''<span class="iv-inline-initiative-icon">'' @ ICONS_footprints @ ''</span>'' @
     ''<span class="iv-inline-initiative-label">Position:</span>'' @
     ''<span class="iv-inline-initiative-change">'' @ escapeHtml from @ '' '' @ arrow @ '' '' @
       escapeHtml to @ ''</span>'' @
     ''</span>''\<close>

text \<open>The test of the class rules: the lower-cased to value contains the word.\<close>

definition mentions :: "string \<Rightarrow> string \<Rightarrow> bool" where
  "mentions to w = includesStr (toLowerCase to) w"

subsection \<open>The block parser: regular expressions\<close>

text \<open>\<^verbatim>\<open>\w\<close> and \<^verbatim>\<open>\d\<close>.\<close>

definition isWordChar :: "char \<Rightarrow> bool" where
  "isWordChar c =
     (let n = (of_char c :: nat)
      in (48 \<le> n \<and> n \<le> 57) \<or> (65 \<le> n \<and> n \<le> 90) \<or> (97 \<le> n \<and> n \<le> 122) \<or> n = 95)"

definition isDigit :: "char \<Rightarrow> bool" where
  "isDigit c = (let n = (of_char c :: nat) in 48 \<le> n \<and> n \<le> 57)"

text \<open>
  A regular expression is modelled by its match at the start of a text: the value of the
  match and the text after it. \<^verbatim>\<open>s.match(re)\<close> takes the first position with a
  match; \<^verbatim>\<open>s.matchAll(re)\<close> restarts after each match, and one character further
  where a match consumed nothing.
\<close>

fun searchFirst :: "(string \<Rightarrow> 'a option) \<Rightarrow> string \<Rightarrow> 'a option" where
  "searchFirst m [] = m []"
| "searchFirst m (c # cs) =
     (case m (c # cs) of Some r \<Rightarrow> Some r | None \<Rightarrow> searchFirst m cs)"

function matchAll :: "(string \<Rightarrow> ('a \<times> string) option) \<Rightarrow> string \<Rightarrow> 'a list" where
  "matchAll m [] = []"
| "matchAll m (c # cs) =
     (case m (c # cs) of
        None \<Rightarrow> matchAll m cs
      | Some (x, rest) \<Rightarrow>
          if length rest \<le> length cs then x # matchAll m rest else x # matchAll m cs)"
  by pat_completeness auto
termination
  by (relation "measure (\<lambda>(m, s). length s)") auto

text \<open>
  \<^verbatim>\<open>/(\w+)="([^"]*)"/\<close> at the start of a text: the key, the value, the rest.
\<close>

definition matchQuotedAt :: "string \<Rightarrow> ((string \<times> string) \<times> string) option" where
  "matchQuotedAt s =
     (let k = takeWhile isWordChar s;
          r = dropWhile isWordChar s
      in if k = [] \<or> \<not> startsWith r [CHR ''='', CHR 0x22] then None
         else
           (let r2 = drop 2 r;
                v = takeWhile (\<lambda>c. c \<noteq> CHR 0x22) r2;
                r3 = dropWhile (\<lambda>c. c \<noteq> CHR 0x22) r2
            in if r3 = [] then None else Some ((k, v), tl r3)))"

text \<open>
  The values of the attribute map: a string, or a number. \<^verbatim>\<open>parseFloat\<close> returns a
  double. A literal with no fraction digit other than zero and an integer part below
  \<open>2 ^ 53\<close> is that integer, exactly, and \<open>Num\<close> of it here. Every other
  literal (a fraction, or \<open>2 ^ 53\<close> and more) is kept as its text, \<open>Inexact\<close>: the
  double it stands for, and the arithmetic on it, are outside this model.
\<close>

datatype jsval = Str string | Num int | Inexact string

definition parseFloatLit :: "bool \<Rightarrow> string \<Rightarrow> string \<Rightarrow> jsval" where
  "parseFloatLit neg ds fs =
     (if list_all (\<lambda>c. c = CHR ''0'') fs \<and> int (digitsValue 10 ds) < 2 ^ 53
      then Num ((if neg then - 1 else 1) * int (digitsValue 10 ds))
      else Inexact ((if neg then ''-'' else []) @ ds @ (if fs = [] then [] else ''.'' @ fs)))"

text \<open>\<^verbatim>\<open>/(\w+)=(-?\d+(?:\.\d+)?)/\<close> at the start of a text.\<close>

definition matchNumberAt :: "string \<Rightarrow> ((string \<times> jsval) \<times> string) option" where
  "matchNumberAt s =
     (let k = takeWhile isWordChar s;
          r = dropWhile isWordChar s
      in if k = [] \<or> \<not> startsWith r ''='' then None
         else
           (let r1 = tl r;
                neg = startsWith r1 ''-'';
                r2 = (if neg then tl r1 else r1);
                ds = takeWhile isDigit r2;
                r3 = dropWhile isDigit r2
            in if ds = [] then None
               else
                 (let fs = (if startsWith r3 ''.'' then takeWhile isDigit (tl r3) else [])
                  in if fs = [] then Some ((k, parseFloatLit neg ds []), r3)
                     else Some ((k, parseFloatLit neg ds fs), dropWhile isDigit (tl r3)))))"

text \<open>
  \<^verbatim>\<open>parseProps\<close>: the quoted pairs first, then the numeric pairs, later writes
  replacing earlier ones.
\<close>

definition parseProps :: "string \<Rightarrow> (string \<rightharpoonup> jsval)" where
  "parseProps line =
     (let props1 = foldl (\<lambda>props (k, v). props(k \<mapsto> Str v)) Map.empty (matchAll matchQuotedAt line)
      in foldl (\<lambda>props (k, v). props(k \<mapsto> v)) props1 (matchAll matchNumberAt line))"

text \<open>
  The doubled wikilink \<^verbatim>\<open>[[path|display]]\<close> between a prefix and a suffix, at the start
  of a text: \<^verbatim>\<open>/name="\[\[([^|]+)\|([^\]]+)\]\]"/\<close> has the prefix \<^verbatim>\<open>name="[[\<close> and the
  suffix \<^verbatim>\<open>]]"\<close>, and \<^verbatim>\<open>/\[\[([^|]+)\|([^\]]+)\]\]/\<close> the brackets alone.
\<close>

definition matchWikiAt :: "string \<Rightarrow> string \<Rightarrow> string \<Rightarrow> (string \<times> string) option" where
  "matchWikiAt pre post s =
     (if \<not> startsWith s pre then None
      else
        (let r = drop (length pre) s;
             g1 = takeWhile (\<lambda>c. c \<noteq> CHR ''|'') r;
             r1 = dropWhile (\<lambda>c. c \<noteq> CHR ''|'') r
         in if g1 = [] \<or> r1 = [] then None
            else
              (let g2 = takeWhile (\<lambda>c. c \<noteq> CHR '']'') (tl r1);
                   r2 = dropWhile (\<lambda>c. c \<noteq> CHR '']'') (tl r1)
               in if g2 = [] \<or> \<not> startsWith r2 post then None else Some (g1, g2))))"

subsection \<open>The block parser: a progress statement\<close>

text \<open>
  What the source can do to a caller besides returning: it throws a \<^verbatim>\<open>TypeError\<close>.
\<close>

datatype error = TypeError

text \<open>
  \<^verbatim>\<open>a || b\<close> on an attribute that may be missing. No result below depends on its
  value at an \<^const>\<open>Inexact\<close> literal.
\<close>

fun truthy :: "jsval \<Rightarrow> bool" where
  "truthy (Str s) = (s \<noteq> [])"
| "truthy (Num n) = (n \<noteq> 0)"
| "truthy (Inexact t) = True"

definition orVal :: "jsval option \<Rightarrow> jsval \<Rightarrow> jsval" where
  "orVal x d = (case x of None \<Rightarrow> d | Some v \<Rightarrow> if truthy v then v else d)"

text \<open>
  The table \<^verbatim>\<open>ticksPerStep\<close> read at a key: one of its five own entries, a property
  every object literal inherits (an object or a function, never a number), or
  \<^verbatim>\<open>undefined\<close>.
\<close>

datatype lookup = Own int | Inherited | Undefined

definition ticksPerStep :: "string \<Rightarrow> lookup" where
  "ticksPerStep key =
     (if key = ''troublesome'' then Own 12
      else if key = ''dangerous'' then Own 8
      else if key = ''formidable'' then Own 4
      else if key = ''extreme'' then Own 2
      else if key = ''epic'' then Own 1
      else if key \<in> set [''constructor'', ''__proto__'', ''hasOwnProperty'', ''isPrototypeOf'',
                ''propertyIsEnumerable'', ''toLocaleString'', ''toString'', ''valueOf'',
                ''__defineGetter__'', ''__defineSetter__'', ''__lookupGetter__'',
                ''__lookupSetter__'']
        then Inherited
      else Undefined)"

text \<open>\<^verbatim>\<open>a % b\<close> for a positive \<open>b\<close>: the remainder has the sign of \<open>a\<close>.\<close>

definition jsRem :: "int \<Rightarrow> int \<Rightarrow> int" where
  "jsRem a b = (if a < 0 then - ((- a) mod b) else a mod b)"

text \<open>A number that may be \<^verbatim>\<open>NaN\<close>, inside a template literal.\<close>

definition showNum :: "int option \<Rightarrow> string" where
  "showNum x = (case x of None \<Rightarrow> ''NaN'' | Some n \<Rightarrow> showInt n)"

text \<open>The constants \<^verbatim>\<open>parseProgressBlock\<close> computes before it fills its template.\<close>

record progress_calc =
  slug :: string
  trackName :: string
  steps :: int
  rank :: string
  from_ticks :: int
  fromBoxes :: int
  fromTicks :: int
  ticksToAdd :: "int option"
  newProgress :: "int option"
  toBoxes :: "int option"
  toTicks :: "int option"

text \<open>An attribute that this model computes with: none, a string, or an exact integer.\<close>

definition modelled :: "jsval option \<Rightarrow> bool" where
  "modelled x = (case x of Some (Inexact t) \<Rightarrow> False | _ \<Rightarrow> True)"

text \<open>
  \<^verbatim>\<open>rank.toLowerCase()\<close> throws when the rank is a number, and so does
  \<^verbatim>\<open>escapeHtml(trackName)\<close> when the name is one. The \<^verbatim>\<open>from\<close> of the source is
  \<open>from_ticks\<close> here.

  The result is \<^const>\<open>None\<close> where this model does not say what the source returns:
  when one of the five attributes read is \<^const>\<open>Inexact\<close>, when the steps or the from
  value is a quoted string (the source then computes with JavaScript's conversions
  between strings and numbers), and when the steps or the from value exceeds
  \<open>2 ^ 48\<close> in magnitude. Within these bounds every product and sum below is an integer
  under \<open>2 ^ 53\<close> in magnitude, which the doubles of the source compute exactly.
\<close>

definition progressCalc :: "string \<Rightarrow> (error + progress_calc) option" where
  \<open>progressCalc line =
     (let props = parseProps line;
          nameMatch = searchFirst (matchWikiAt ''name="[['' '']]"'') line;
          slug0 = (case nameMatch of Some (g1, g2) \<Rightarrow> pathToSlug_block g1 | None \<Rightarrow> ''#'');
          trackName0 = (case nameMatch of Some (g1, g2) \<Rightarrow> Str g2
                        | None \<Rightarrow> orVal (props ''name'') (Str []));
          steps0 = orVal (props ''steps'') (Num 1);
          rank0 = orVal (props ''rank'') (orVal (props ''level'') (Str []));
          from0 = orVal (props ''from'') (Num 0)
      in if \<not> (modelled (props ''name'') \<and> modelled (props ''steps'') \<and> modelled (props ''rank'')
                \<and> modelled (props ''level'') \<and> modelled (props ''from''))
         then None
         else
           (case rank0 of
              Str rank1 \<Rightarrow>
                (case trackName0 of
                   Str trackName1 \<Rightarrow>
                     (case (steps0, from0) of
                        (Num steps1, Num from1) \<Rightarrow>
                          if abs steps1 \<le> 2 ^ 48 \<and> abs from1 \<le> 2 ^ 48
                          then
                            (let perStep = ticksPerStep (toLowerCase rank1);
                                 ticksToAdd1 = (case perStep of
                                                  Own t \<Rightarrow> Some (t * steps1)
                                                | Undefined \<Rightarrow> Some (4 * steps1)
                                                | Inherited \<Rightarrow> None);
                                 newProgress1 = map_option (\<lambda>t. from1 + t) ticksToAdd1
                             in Some (Inr \<lparr> slug = slug0, trackName = trackName1, steps = steps1,
                                      rank = rank1, from_ticks = from1,
                                      fromBoxes = from1 div 4, fromTicks = jsRem from1 4,
                                      ticksToAdd = ticksToAdd1, newProgress = newProgress1,
                                      toBoxes = map_option (\<lambda>p. p div 4) newProgress1,
                                      toTicks = map_option (\<lambda>p. jsRem p 4) newProgress1 \<rparr>))
                          else None
                      | _ \<Rightarrow> None)
                 | _ \<Rightarrow> Some (Inl TypeError))
            | _ \<Rightarrow> Some (Inl TypeError)))\<close>

definition renderProgress :: "progress_calc \<Rightarrow> string" where
  \<open>renderProgress c =
     ''<dl class="progress">\<newline>'' @
     ''    <dt>Progress</dt>\<newline>'' @
     ''    <dd class="track-name"><a href="'' @ slug c @ ''">'' @ escapeHtml_block (trackName c) @
       ''</a></dd>\<newline>'' @
     ''    <dd class="steps '' @ (if steps c < 0 then ''negative'' else ''positive'') @ ''">'' @
       showInt (abs (steps c)) @ ''</dd>\<newline>'' @
     ''    <dd class="rank">'' @ escapeHtml_block (rank c) @ ''</dd>\<newline>'' @
     ''    <dd class="from-boxes">'' @ showInt (fromBoxes c) @ ''</dd>\<newline>'' @
     ''    <dd class="from-ticks">'' @ showInt (fromTicks c) @ ''</dd>\<newline>'' @
     ''    <dd class="to-boxes">'' @ showNum (toBoxes c) @ ''</dd>\<newline>'' @
     ''    <dd class="to-ticks">'' @ showNum (toTicks c) @ ''</dd>\<newline>'' @
     ''  </dl>''\<close>

definition parseProgressBlock :: "string \<Rightarrow> (error + string) option" where
  "parseProgressBlock line =
     (case progressCalc line of
        None \<Rightarrow> None
      | Some (Inl e) \<Rightarrow> Some (Inl e)
      | Some (Inr c) \<Rightarrow> Some (Inr (renderProgress c)))"

text \<open>The table of ranks as the specification gives it.\<close>

definition rank_table :: "string \<rightharpoonup> int" where
  "rank_table =
     [''troublesome'' \<mapsto> 12, ''dangerous'' \<mapsto> 8, ''formidable'' \<mapsto> 4, ''extreme'' \<mapsto> 2,
      ''epic'' \<mapsto> 1]"

text \<open>
  An attribute of a progress line as the specification reads it. An integer attribute is
  absent (the default), or an unquoted integer of at most \<open>2 ^ 48\<close> in magnitude, zero
  counting as absent; a text attribute is absent (the empty text) or quoted.
  \<^const>\<open>None\<close>: the attribute is written in another way.
\<close>

definition int_attr :: "jsval option \<Rightarrow> int \<Rightarrow> int option" where
  "int_attr x d =
     (case x of
        None \<Rightarrow> Some d
      | Some (Num n) \<Rightarrow> if abs n \<le> 2 ^ 48 then Some (if n = 0 then d else n) else None
      | Some v \<Rightarrow> None)"

definition str_attr :: "jsval option \<Rightarrow> string option" where
  "str_attr x = (case x of None \<Rightarrow> Some [] | Some (Str s) \<Rightarrow> Some s | Some v \<Rightarrow> None)"

text \<open>The ticks of one step at a rank: the entry of the table, and 4 for any other rank.\<close>

definition ticks_per_step :: "string \<Rightarrow> int" where
  "ticks_per_step r = (case rank_table (toLowerCase r) of Some t \<Rightarrow> t | None \<Rightarrow> 4)"

subsection \<open>The block parser: collecting a braced block\<close>

text \<open>
  The brace count of one line: \<^verbatim>\<open>(l.match(/{/g) || []).length - (l.match(/}/g) || []).length\<close>.
\<close>

definition braceDelta :: "string \<Rightarrow> int" where
  "braceDelta l =
     int (length (filter (\<lambda>c. c = CHR ''{'') l)) - int (length (filter (\<lambda>c. c = CHR ''}'') l))"

text \<open>The loop of \<^verbatim>\<open>collectBlock\<close>, on its three variables.\<close>

function collectLoop :: "string list \<Rightarrow> string list \<Rightarrow> int \<Rightarrow> nat \<Rightarrow> string list \<times> nat" where
  "collectLoop lines collected braceCount i =
     (if braceCount > 0 \<and> i + 1 < length lines
      then collectLoop lines (collected @ [lines ! (i + 1)])
             (braceCount + braceDelta (lines ! (i + 1))) (i + 1)
      else (collected, i))"
  by pat_completeness auto
termination
  by (relation "measure (\<lambda>(lines, collected, braceCount, i). length lines - i)") auto

declare collectLoop.simps [simp del]

text \<open>
  \<^verbatim>\<open>collectBlock\<close>: reading \<^verbatim>\<open>lines[startIndex]\<close> past the end gives
  \<^verbatim>\<open>undefined\<close>, and the call of \<^verbatim>\<open>match\<close> on it throws.
\<close>

definition collectBlock :: "string list \<Rightarrow> nat \<Rightarrow> error + (string \<times> nat)" where
  "collectBlock lines startIndex =
     (if startIndex < length lines
      then (case collectLoop lines [lines ! startIndex] (braceDelta (lines ! startIndex)) startIndex of
              (collected, i) \<Rightarrow> Inr (join collected ''\<newline>'', i))
      else Inl TypeError)"

subsection \<open>The block parser: the statements of a block\<close>

text \<open>
  The statement kinds, named after the functions that render them. The renderers other
  than \<^verbatim>\<open>parseActorBlock\<close> are straight-line code on one text (matches, arithmetic and
  a template) and never call the scanner; the scanner is modelled for arbitrary such
  renderers \<open>R\<close>, any of which may throw: \<open>R MoveBlock\<close> stands for
  \<^verbatim>\<open>parseMoveBlock\<close>, and so on.
\<close>

datatype block_kind =
  MoveBlock | OracleGroupBlock | OracleWithNested | OracleBlock | RollBlock
  | ProgressRollBlock | MeterBlock | BurnBlock | XpBlock | TrackBlock | ProgressBlock
  | ClockBlock | AssetBlock | ImpactBlock | InitiativeBlock | ActorBlock | RerollBlock
  | AddBlock | DiceExprBlock | DetailBlock

type_synonym renderers = "block_kind \<Rightarrow> string \<Rightarrow> error + string"

text \<open>
  One iteration of the loop of \<^verbatim>\<open>parseIronVaultBlock\<close>, up to the call of the
  renderer: the branch taken, the text handed to the renderer, and the value of the
  cursor before \<^verbatim>\<open>i++\<close>.
\<close>

definition braced :: "block_kind \<Rightarrow> string list \<Rightarrow> nat \<Rightarrow> error + ((block_kind \<times> string) option \<times> nat)" where
  "braced k lines i =
     (case collectBlock lines i of
        Inl e \<Rightarrow> Inl e
      | Inr (content, endIndex) \<Rightarrow> Inr (Some (k, content), endIndex))"

definition dispatch :: "string list \<Rightarrow> nat \<Rightarrow> error + ((block_kind \<times> string) option \<times> nat)" where
  "dispatch lines i =
     (if i < length lines then
        (let line = trim (lines ! i)
         in if startsWith line ''move '' then braced MoveBlock lines i
            else if startsWith line ''oracle-group '' then braced OracleGroupBlock lines i
            else if startsWith line ''oracle '' then
              (if includesStr line ''{'' then braced OracleWithNested lines i
               else Inr (Some (OracleBlock, line), i))
            else if startsWith line ''roll '' then Inr (Some (RollBlock, line), i)
            else if startsWith line ''progress-roll '' then Inr (Some (ProgressRollBlock, line), i)
            else if startsWith line ''meter '' then Inr (Some (MeterBlock, line), i)
            else if startsWith line ''burn '' then Inr (Some (BurnBlock, line), i)
            else if startsWith line ''xp '' then Inr (Some (XpBlock, line), i)
            else if startsWith line ''track '' then Inr (Some (TrackBlock, line), i)
            else if startsWith line ''progress '' then Inr (Some (ProgressBlock, line), i)
            else if startsWith line ''clock '' then Inr (Some (ClockBlock, line), i)
            else if startsWith line ''asset '' then Inr (Some (AssetBlock, line), i)
            else if startsWith line ''impact '' then Inr (Some (ImpactBlock, line), i)
            else if startsWith line ''initiative '' \<or> startsWith line ''position ''
              then Inr (Some (InitiativeBlock, line), i)
            else if startsWith line ''actor '' then braced ActorBlock lines i
            else if startsWith line ''reroll '' then Inr (Some (RerollBlock, line), i)
            else if startsWith line ''add '' then Inr (Some (AddBlock, line), i)
            else if startsWith line ''dice-expr '' then Inr (Some (DiceExprBlock, line), i)
            else if startsWith line ''- '' then Inr (Some (DetailBlock, line), i)
            else Inr (None, i))
      else Inl TypeError)"

subsection \<open>The block parser: actors\<close>

text \<open>\<^verbatim>\<open>/actor\s+name="([^"]+)"/\<close> at the start of a text: the name.\<close>

definition matchActorNameAt :: "string \<Rightarrow> string option" where
  \<open>matchActorNameAt s =
     (if \<not> startsWith s ''actor'' then None
      else
        (let r = drop 5 s;
             ws = takeWhile isWhiteSpace r;
             r1 = dropWhile isWhiteSpace r
         in if ws = [] \<or> \<not> startsWith r1 ''name="'' then None
            else
              (let r2 = drop 6 r1;
                   v = takeWhile (\<lambda>c. c \<noteq> CHR 0x22) r2;
                   r3 = dropWhile (\<lambda>c. c \<noteq> CHR 0x22) r2
               in if v = [] \<or> r3 = [] then None else Some v)))\<close>

text \<open>
  The text \<^verbatim>\<open>parseActorBlock\<close> hands to the recursive call:
  \<^verbatim>\<open>content.substring(braceStart + 1, braceEnd).trim()\<close>.
\<close>

definition braceInner :: "string \<Rightarrow> string" where
  "braceInner content =
     trim (substring content (indexOf content (CHR ''{'') + 1) (lastIndexOf content (CHR ''}'')))"

text \<open>
  \<^verbatim>\<open>s.replace(/^<article class="iron-vault-mechanics">/, '').replace(/<\/article>$/, '')\<close>.
\<close>

definition stripArticle :: "string \<Rightarrow> string" where
  \<open>stripArticle html =
     (let p = ''<article class="iron-vault-mechanics">'';
          q = ''</article>'';
          h1 = (if startsWith html p then drop (length p) html else html)
      in if endsWith h1 q then take (length h1 - length q) h1 else h1)\<close>

text \<open>The name and the template of \<^verbatim>\<open>parseActorBlock\<close>, given the inner markup.\<close>

definition actorSection :: "string \<Rightarrow> string \<Rightarrow> string" where
  \<open>actorSection content innerContent =
     (let nameMatch = searchFirst matchActorNameAt content;
          name = (case nameMatch of Some v \<Rightarrow> v | None \<Rightarrow> ''Actor'');
          linkMatch = searchFirst (matchWikiAt ''[['' '']]'') name;
          displayName = (case linkMatch of Some (g1, g2) \<Rightarrow> g2 | None \<Rightarrow> name);
          slug = (case linkMatch of Some (g1, g2) \<Rightarrow> pathToSlug_block g1 | None \<Rightarrow> []);
          nameHtml = (if slug \<noteq> []
                      then ''<a href="'' @ slug @ ''">'' @ escapeHtml_block displayName @ ''</a>''
                      else escapeHtml_block displayName)
      in ''<section class="actor">\<newline>'' @
         ''    <header><span>'' @ nameHtml @ ''</span></header>\<newline>'' @
         ''    <div>'' @ innerContent @ ''</div>\<newline>'' @
         ''  </section>'')\<close>

text \<open>The size of the recursive call of \<^verbatim>\<open>parseActorBlock\<close>, none being 0.\<close>

definition actorSize :: "string \<Rightarrow> nat" where
  "actorSize content =
     (if indexOf content (CHR ''{'') \<noteq> - 1 \<and> lastIndexOf content (CHR ''}'') \<noteq> - 1
      then length (braceInner content) else 0)"

subsection \<open>Facts for the termination of the scanner\<close>

lemma indexOf_ge: "- 1 \<le> indexOf s c"
  by (induction s) (auto simp: Let_def)

lemma indexOf_notin: "(indexOf s c = - 1) = (c \<notin> set s)"
proof (induction s)
  case Nil
  show ?case by simp
next
  case (Cons x xs)
  have "- 1 \<le> indexOf xs c" by (rule indexOf_ge)
  with Cons show ?case by (auto simp: Let_def)
qed

lemma indexOf_takeWhile:
  "c \<in> set s \<Longrightarrow> indexOf s c = int (length (takeWhile (\<lambda>x. x \<noteq> c) s))"
proof (induction s)
  case Nil
  then show ?case by simp
next
  case (Cons x xs)
  show ?case
  proof (cases "x = c")
    case True
    then show ?thesis by simp
  next
    case False
    with Cons.prems have in_xs: "c \<in> set xs" by simp
    then have "indexOf xs c \<noteq> - 1" by (simp add: indexOf_notin)
    with False Cons.IH [OF in_xs] show ?thesis by (simp add: Let_def)
  qed
qed

lemma startsWith_iff: "startsWith s p = (\<exists>post. s = p @ post)"
  by (induction s p rule: startsWith.induct) auto

lemma splitBy_nonempty: "splitBy sep s \<noteq> []"
  by (induction s) (auto simp: Let_def)

lemma collectLoop_bounds:
  "collectLoop lines collected braceCount j = (collected', e) \<Longrightarrow>
     j \<le> e \<and> (j < length lines \<longrightarrow> e < length lines)
     \<and> collected' = collected @ take (e - j) (drop (j + 1) lines)"
proof (induction lines collected braceCount j rule: collectLoop.induct)
  case (1 lines collected braceCount i)
  show ?case
  proof (cases "braceCount > 0 \<and> i + 1 < length lines")
    case False
    with "1.prems" show ?thesis by (auto simp: collectLoop.simps [of lines collected braceCount i])
  next
    case True
    with "1.prems" have rec: "collectLoop lines (collected @ [lines ! (i + 1)])
             (braceCount + braceDelta (lines ! (i + 1))) (i + 1) = (collected', e)"
      by (simp add: collectLoop.simps [of lines collected braceCount i])
    from "1.IH" [OF True rec] have a: "i + 1 \<le> e" and b: "e < length lines"
      and c: "collected' = (collected @ [lines ! (i + 1)]) @ take (e - (i + 1)) (drop (i + 1 + 1) lines)"
      using True by auto
    have "take (e - i) (drop (i + 1) lines) = lines ! (i + 1) # take (e - (i + 1)) (drop (i + 1 + 1) lines)"
    proof -
      from True have "drop (i + 1) lines = lines ! (i + 1) # drop (i + 1 + 1) lines"
        by (simp add: Cons_nth_drop_Suc)
      moreover from a have "e - i = Suc (e - (i + 1))" by simp
      ultimately show ?thesis by simp
    qed
    with a b c show ?thesis by simp
  qed
qed

lemma collectBlock_Inr:
  assumes "collectBlock lines i = Inr (content, e)"
  shows "i < length lines" and "i \<le> e" and "e < length lines"
    and "content = join (take (e + 1 - i) (drop i lines)) ''\<newline>''"
proof -
  from assms show lt: "i < length lines"
    by (auto simp: collectBlock_def split: if_splits)
  with assms obtain collected where
    loop: "collectLoop lines [lines ! i] (braceDelta (lines ! i)) i = (collected, e)"
    and c: "content = join collected ''\<newline>''"
    by (auto simp: collectBlock_def split: prod.splits)
  from collectLoop_bounds [OF loop] lt
  have le: "i \<le> e" and b: "e < length lines"
    and col: "collected = [lines ! i] @ take (e - i) (drop (i + 1) lines)"
    by auto
  show "i \<le> e" by (rule le)
  show "e < length lines" by (rule b)
  from lt have "drop i lines = lines ! i # drop (i + 1) lines"
    by (simp add: Cons_nth_drop_Suc)
  moreover from le have "e + 1 - i = Suc (e - i)" by simp
  ultimately have "take (e + 1 - i) (drop i lines) = lines ! i # take (e - i) (drop (i + 1) lines)"
    by simp
  with c col show "content = join (take (e + 1 - i) (drop i lines)) ''\<newline>''" by simp
qed

lemma collectBlock_total:
  "i < length lines \<Longrightarrow> \<exists>content e. collectBlock lines i = Inr (content, e)"
  by (auto simp: collectBlock_def split: prod.splits)

lemma dispatch_bounds:
  assumes "dispatch lines i = Inr (x, e)"
  shows "i \<le> e \<and> e < length lines"
proof -
  from assms have lt: "i < length lines"
    by (auto simp: dispatch_def split: if_splits)
  have br: "i \<le> e \<and> e < length lines" if "braced k lines i = Inr (x, e)" for k
    using that collectBlock_Inr(2,3) [of lines i _ e]
    by (auto simp: braced_def split: sum.splits)
  from assms lt br show ?thesis
    unfolding dispatch_def Let_def
    by (auto split: if_splits)
qed

lemma dispatch_actor:
  assumes "dispatch lines i = Inr (Some (ActorBlock, content), e)"
  shows "startsWith (trim (lines ! i)) ''actor '' \<and> collectBlock lines i = Inr (content, e)"
  using assms unfolding dispatch_def Let_def braced_def
  by (auto split: if_splits sum.splits)

lemma join_Cons: "join (p # ps) sep = (if ps = [] then p else p @ sep @ join ps sep)"
  by (cases ps) simp_all

lemma length_join:
  "length (join xs sep) = sum_list (map length xs) + (length xs - 1) * length sep"
  by (induction xs sep rule: join.induct) simp_all

lemma sum_list_slice_le:
  "sum_list (map length (take k (drop i xs))) \<le> sum_list (map (length :: string \<Rightarrow> nat) xs)"
proof -
  have "sum_list (map length xs) =
          sum_list (map length (take i xs)) + sum_list (map length (drop i xs))"
    by (metis append_take_drop_id map_append sum_list.append)
  moreover have "sum_list (map length (drop i xs)) =
          sum_list (map length (take k (drop i xs))) + sum_list (map length (drop k (drop i xs)))"
    by (metis append_take_drop_id map_append sum_list.append)
  ultimately show ?thesis by simp
qed

lemma join_slice_le: "length (join (take k (drop i xs)) sep) \<le> length (join xs sep)"
proof -
  have "length (take k (drop i xs)) - 1 \<le> length xs - 1" by simp
  then have "(length (take k (drop i xs)) - 1) * length sep \<le> (length xs - 1) * length sep"
    by (rule mult_le_mono1)
  with sum_list_slice_le [of k i xs] show ?thesis
    by (simp add: length_join add_mono)
qed

lemma join_split: "join (split s c) [c] = s"
proof (induction s)
  case Nil
  show ?case by (simp add: split_def)
next
  case (Cons x xs)
  obtain p ps where r: "splitBy (\<lambda>y. y = c) xs = p # ps"
    using splitBy_nonempty [of "\<lambda>y. y = c" xs] by (cases "splitBy (\<lambda>y. y = c) xs") auto
  with Cons have "join (p # ps) [c] = xs" by (simp add: split_def)
  with r show ?case by (auto simp: split_def join_Cons Let_def split: if_splits)
qed

lemma length_trim_le: "length (trim s) \<le> length s"
proof -
  have "length (trim s) \<le> length (dropWhile isWhiteSpace s)"
    unfolding trim_def using length_dropWhile_le [of isWhiteSpace "rev (dropWhile isWhiteSpace s)"]
    by simp
  also have "\<dots> \<le> length s" by (rule length_dropWhile_le)
  finally show ?thesis .
qed

lemma trim_decompose:
  "\<exists>ws rest. l = ws @ trim l @ rest \<and> (\<forall>c \<in> set ws. isWhiteSpace c)"
proof -
  let ?d = "dropWhile isWhiteSpace l"
  have 1: "l = takeWhile isWhiteSpace l @ ?d" by simp
  have "rev ?d = takeWhile isWhiteSpace (rev ?d) @ dropWhile isWhiteSpace (rev ?d)" by simp
  then have "?d = rev (dropWhile isWhiteSpace (rev ?d)) @ rev (takeWhile isWhiteSpace (rev ?d))"
    by (metis rev_append rev_rev_ident)
  then have 2: "?d = trim l @ rev (takeWhile isWhiteSpace (rev ?d))"
    by (simp only: trim_def)
  have "l = takeWhile isWhiteSpace l @ trim l @ rev (takeWhile isWhiteSpace (rev ?d))"
    using 1 2 by metis
  moreover have "\<forall>c \<in> set (takeWhile isWhiteSpace l). isWhiteSpace c"
    by (auto dest: set_takeWhileD)
  ultimately show ?thesis by blast
qed

lemma actor_line_head:
  assumes "startsWith (trim l) ''actor ''"
  shows "l \<noteq> [] \<and> hd l \<noteq> CHR ''}''"
proof -
  from assms obtain post where t: "trim l = ''actor '' @ post"
    by (auto simp: startsWith_iff)
  from trim_decompose [of l] obtain ws rest where
    l: "l = ws @ trim l @ rest" and ws: "\<forall>c \<in> set ws. isWhiteSpace c" by blast
  show ?thesis
  proof (cases ws)
    case Nil
    with l t have "l = ''actor '' @ post @ rest" by simp
    then show ?thesis by auto
  next
    case (Cons w ws')
    with l have "l = w # (ws' @ trim l @ rest)" by simp
    then have "l \<noteq> []" and "hd l = w" by (metis list.discI, metis list.sel(1))
    moreover from ws Cons have "isWhiteSpace w" by simp
    then have "w \<noteq> CHR ''}''" by (auto simp: isWhiteSpace_def)
    ultimately show ?thesis by simp
  qed
qed

lemma indexOf_less: "indexOf s c < int (length s)"
proof (cases "c \<in> set s")
  case True
  then have "takeWhile (\<lambda>x. x \<noteq> c) s \<noteq> s" by (auto simp: takeWhile_eq_all_conv)
  then have "length (takeWhile (\<lambda>x. x \<noteq> c) s) < length s"
    using length_takeWhile_le [of "\<lambda>x. x \<noteq> c" s]
    by (metis le_neq_implies_less takeWhile_eq_take take_all_iff order_refl)
  with True show ?thesis by (simp add: indexOf_takeWhile)
next
  case False
  then have "indexOf s c = - 1" by (simp add: indexOf_notin)
  then show ?thesis by simp
qed

lemma indexOf_last:
  assumes "indexOf s c = int (length s) - 1" and "s \<noteq> []"
  shows "last s = c"
proof -
  from assms have "indexOf s c \<noteq> - 1" by (cases s) auto
  then have mem: "c \<in> set s" by (simp add: indexOf_notin)
  with assms have len: "length (takeWhile (\<lambda>x. x \<noteq> c) s) = length s - 1"
    by (simp add: indexOf_takeWhile)
  have s: "s = takeWhile (\<lambda>x. x \<noteq> c) s @ dropWhile (\<lambda>x. x \<noteq> c) s" by simp
  from mem have ne: "dropWhile (\<lambda>x. x \<noteq> c) s \<noteq> []" by (auto simp: dropWhile_eq_Nil_conv)
  have "length s = length (takeWhile (\<lambda>x. x \<noteq> c) s) + length (dropWhile (\<lambda>x. x \<noteq> c) s)"
    by (metis s length_append)
  with len assms(2) have "length (dropWhile (\<lambda>x. x \<noteq> c) s) = 1"
    by (cases s) auto
  with ne obtain y where d: "dropWhile (\<lambda>x. x \<noteq> c) s = [y]"
    by (cases "dropWhile (\<lambda>x. x \<noteq> c) s") auto
  from ne have "\<not> (hd (dropWhile (\<lambda>x. x \<noteq> c) s) \<noteq> c)" by (rule hd_dropWhile)
  with d have "y = c" by simp
  with s d have "s = takeWhile (\<lambda>x. x \<noteq> c) s @ [c]" by simp
  then show ?thesis by (metis last_snoc)
qed

lemma lastIndexOf_bounds:
  "- 1 \<le> lastIndexOf s c \<and> lastIndexOf s c < int (length s)"
  using indexOf_ge [of "rev s" c] indexOf_less [of "rev s" c]
  by (auto simp: lastIndexOf_def Let_def)

lemma lastIndexOf_zero:
  assumes "lastIndexOf s c = 0"
  shows "s \<noteq> [] \<and> hd s = c"
proof -
  from assms have ne: "s \<noteq> []" by (auto simp: lastIndexOf_def Let_def)
  from assms have "indexOf (rev s) c = int (length (rev s)) - 1"
    by (auto simp: lastIndexOf_def Let_def split: if_splits)
  with ne have "last (rev s) = c" by (intro indexOf_last) simp_all
  with ne show ?thesis by (simp add: last_rev)
qed

lemma substring_shorter:
  "1 \<le> a \<Longrightarrow> a \<le> int (length s) \<Longrightarrow> 1 \<le> b \<Longrightarrow> b < int (length s) \<Longrightarrow>
     length (substring s a b) < length s"
  by (auto simp: substring_def Let_def min_def max_def)

lemma braceInner_shorter:
  assumes "content \<noteq> []" and "hd content \<noteq> CHR ''}''"
    and "indexOf content (CHR ''{'') \<noteq> - 1" and "lastIndexOf content (CHR ''}'') \<noteq> - 1"
  shows "length (braceInner content) < length content"
proof -
  let ?a = "indexOf content (CHR ''{'') + 1" and ?b = "lastIndexOf content (CHR ''}'')"
  from assms(3) indexOf_ge [of content "CHR ''{''"] have a1: "1 \<le> ?a" by simp
  from indexOf_less [of content "CHR ''{''"] have a2: "?a \<le> int (length content)" by simp
  from assms(1,2) lastIndexOf_zero [of content "CHR ''}''"] have "?b \<noteq> 0" by auto
  with assms(4) lastIndexOf_bounds [of content "CHR ''}''"]
  have b1: "1 \<le> ?b" and b2: "?b < int (length content)" by auto
  have "length (braceInner content) \<le> length (substring content ?a ?b)"
    unfolding braceInner_def by (rule length_trim_le)
  also have "\<dots> < length content" using a1 a2 b1 b2 by (rule substring_shorter)
  finally show ?thesis .
qed

lemma actor_block_size:
  assumes "startsWith (trim (lines ! i)) ''actor ''"
    and "collectBlock lines i = Inr (content, e)"
  shows "content \<noteq> [] \<and> hd content \<noteq> CHR ''}'' \<and> actorSize content < length content
         \<and> length content \<le> length (join lines ''\<newline>'')"
proof -
  note cb = collectBlock_Inr [OF assms(2)]
  from cb(1) have "drop i lines = lines ! i # drop (i + 1) lines"
    by (simp add: Cons_nth_drop_Suc)
  moreover from cb(2) have "e + 1 - i = Suc (e - i)" by simp
  ultimately have sl: "take (e + 1 - i) (drop i lines) = lines ! i # take (e - i) (drop (i + 1) lines)"
    by simp
  from actor_line_head [OF assms(1)] have l: "lines ! i \<noteq> []" "hd (lines ! i) \<noteq> CHR ''}''"
    by simp_all
  from cb(4) sl have c: "content = join (lines ! i # take (e - i) (drop (i + 1) lines)) ''\<newline>''"
    by simp
  with l have ne: "content \<noteq> []" and hd: "hd content \<noteq> CHR ''}''"
    by (auto simp: join_Cons)
  have le: "length content \<le> length (join lines ''\<newline>'')"
    unfolding cb(4) by (rule join_slice_le)
  have "actorSize content < length content"
    using braceInner_shorter [OF ne hd] ne by (auto simp: actorSize_def)
  with ne hd le show ?thesis by simp
qed

subsection \<open>The block parser: the scanner\<close>

text \<open>
  \<^verbatim>\<open>parseIronVaultBlock\<close>, its loop on the cursor \<open>i\<close> and the list \<open>results\<close>, and
  \<^verbatim>\<open>parseActorBlock\<close>, which calls \<^verbatim>\<open>parseIronVaultBlock\<close> on the text between the
  braces. An exception of a renderer ends the loop.
\<close>

function parseIronVaultBlock :: "renderers \<Rightarrow> string \<Rightarrow> error + string"
  and scanLines :: "renderers \<Rightarrow> string list \<Rightarrow> nat \<Rightarrow> string list \<Rightarrow> error + string list"
  and parseActorBlock :: "renderers \<Rightarrow> string \<Rightarrow> error + string"
where
  \<open>parseIronVaultBlock R content =
     (case scanLines R (split (trim content) (CHR 0x0A)) 0 [] of
        Inl e \<Rightarrow> Inl e
      | Inr results \<Rightarrow>
          Inr (''<article class="iron-vault-mechanics">'' @ concat results @ ''</article>''))\<close>
| \<open>scanLines R lines i results =
     (if i < length lines then
        (case dispatch lines i of
           Inl e \<Rightarrow> Inl e
         | Inr (None, endIndex) \<Rightarrow> scanLines R lines (endIndex + 1) results
         | Inr (Some (k, text0), endIndex) \<Rightarrow>
             (case (if k = ActorBlock then parseActorBlock R text0 else R k text0) of
                Inl e \<Rightarrow> Inl e
              | Inr html \<Rightarrow> scanLines R lines (endIndex + 1) (results @ [html])))
      else Inr results)\<close>
| \<open>parseActorBlock R content =
     (let braceStart = indexOf content (CHR ''{'');
          braceEnd = lastIndexOf content (CHR ''}'')
      in if braceStart \<noteq> - 1 \<and> braceEnd \<noteq> - 1 \<and> braceInner content \<noteq> []
         then (case parseIronVaultBlock R (braceInner content) of
                 Inl e \<Rightarrow> Inl e
               | Inr html \<Rightarrow> Inr (actorSection content (stripArticle html)))
         else Inr (actorSection content []))\<close>
  by pat_completeness auto
termination
  apply (relation "measures
    [\<lambda>x. case x of
            Inl (R, content) \<Rightarrow> length content
          | Inr (Inl (R, lines, i, results)) \<Rightarrow> length (join lines ''\<newline>'')
          | Inr (Inr (R, content)) \<Rightarrow> actorSize content,
     \<lambda>x. case x of Inl a \<Rightarrow> 2 | Inr (Inl b) \<Rightarrow> 1 | Inr (Inr c) \<Rightarrow> 3,
     \<lambda>x. case x of Inr (Inl (R, lines, i, results)) \<Rightarrow> length lines - i | _ \<Rightarrow> 0]")
  subgoal by simp
  subgoal for R content
    using length_trim_le [of content] by (auto simp: join_split)
  subgoal for R lines i results b x y
    using dispatch_bounds [of lines i x y] by auto
  subgoal for R lines i results b x y x2 xa ya
    using actor_block_size [of lines i ya y] dispatch_actor [of lines i ya y] by auto
  subgoal for R lines i results b x y x2 xa ya ba
    using dispatch_bounds [of lines i x y] by auto
  subgoal for R content x xa
    by (auto simp: actorSize_def)
  done

declare parseIronVaultBlock.simps [simp del] scanLines.simps [simp del] parseActorBlock.simps [simp del]

section \<open>Properties\<close>

subsection \<open>The outcome classifier\<close>

text \<open>
  C1. For all integers score, vs1 and vs2 the classifier, in its inline copy and in its
  block copy, returns strong-hit exactly when the score exceeds both challenge values,
  miss exactly when it exceeds neither, and weak-hit exactly when it exceeds one of the
  two and not the other; a score equal to a challenge value does not exceed it. The
  result type has the three tiers and no other value, and the two copies agree.
\<close>

theorem getOutcome_classification:
  "(getOutcome score vs1 vs2 = StrongHit) = (score > vs1 \<and> score > vs2)
   \<and> (getOutcome score vs1 vs2 = Miss) = (score \<le> vs1 \<and> score \<le> vs2)
   \<and> (getOutcome score vs1 vs2 = WeakHit) = ((score > vs1) \<noteq> (score > vs2))
   \<and> getOutcome_block score vs1 vs2 = getOutcome score vs1 vs2
   \<and> getOutcome score vs1 vs2 \<in> {StrongHit, WeakHit, Miss}
   \<and> getOutcome score vs score \<noteq> StrongHit \<and> getOutcome score score vs \<noteq> StrongHit"
  unfolding getOutcome_def getOutcome_block_def by auto

subsection \<open>Index and substring\<close>

lemma substring_take: "substring s 0 (int k) = take k s"
  by (cases "k \<le> length s") (simp_all add: substring_def Let_def min_def max_def)

lemma substringFrom_drop: "substringFrom s (int k) = drop k s"
  by (cases "k \<le> length s")
    (simp_all add: substringFrom_def substring_def Let_def min_def max_def)

lemma type_of_code:
  "c \<in> set s \<Longrightarrow> substring s 0 (indexOf s c) = takeWhile (\<lambda>x. x \<noteq> c) s"
  by (simp add: indexOf_takeWhile substring_take takeWhile_eq_take [symmetric])

subsection \<open>The null sentinel of the inline parser\<close>

text \<open>
  C9. For every input string, \<^verbatim>\<open>parseInlineMechanic\<close> returns \<^verbatim>\<open>null\<close> if and only
  if the string does not start with \<^verbatim>\<open>iv-\<close>, or contains no colon, or its text before
  the first colon is not one of the sixteen kind tags; so every recognized code gets an
  HTML string.
\<close>

theorem parseInlineMechanic_null_iff:
  "(parseInlineMechanic code filesByName = None) =
     (\<not> startsWith code ''iv-'' \<or> CHR '':'' \<notin> set code
      \<or> takeWhile (\<lambda>c. c \<noteq> CHR '':'') code \<notin> set inline_kinds)"
proof (cases "startsWith code ''iv-'' \<and> CHR '':'' \<in> set code")
  case False
  then show ?thesis
    by (auto simp: parseInlineMechanic_def indexOf_notin Let_def)
next
  case True
  then have idx: "indexOf code (CHR '':'') \<noteq> - 1"
    and ty: "substring code 0 (indexOf code (CHR '':'')) = takeWhile (\<lambda>c. c \<noteq> CHR '':'') code"
    by (simp_all add: indexOf_notin type_of_code)
  from True idx show ?thesis
    unfolding parseInlineMechanic_def Let_def ty inline_kinds_def
    by simp
qed

theorem parseInlineMechanic_null_iff_witness:
  "parseInlineMechanic ''iv-unknown:x'' None = None
   \<and> parseInlineMechanic ''iv-move'' None = None
   \<and> parseInlineMechanic ''move:x'' None = None
   \<and> parseInlineMechanic ''iv-ooc:hello'' None \<noteq> None"
  using parseInlineMechanic_null_iff [of "''iv-unknown:x''" None]
    parseInlineMechanic_null_iff [of "''iv-move''" None]
    parseInlineMechanic_null_iff [of "''move:x''" None]
    parseInlineMechanic_null_iff [of "''iv-ooc:hello''" None]
  by (simp add: inline_kinds_def)

subsection \<open>A move, evaluated\<close>

text \<open>
  C7. \<^verbatim>\<open>parseInlineMechanic\<close> on \<^verbatim>\<open>iv-move:Face Danger|edge|4|3|0|3|5\<close>, with or
  without a lookup table: the score is \<open>min 10 (4 + 3 + 0) = 7\<close>, the outcome is
  strong-hit, the two challenge dice do not match, and the span that is returned has the
  class list \<^verbatim>\<open>iv-inline-mechanics strong-hit\<close> (no \<^verbatim>\<open>match\<close>), the score element
  with the text 7, and no match element.
\<close>

theorem parseInlineMechanic_face_danger:
  \<open>parseInlineMechanic ''iv-move:Face Danger|edge|4|3|0|3|5'' filesByName =
     Some (''<span class="iv-inline-mechanics strong-hit">'' @
           ''<span class="iv-inline-outcome-icon"></span>'' @
           ''<span class="iv-inline-move-name iv-inline-link">Face Danger</span>'' @
           ''<span class="iv-inline-stat">(edge)</span>'' @
           ''<span class="iv-inline-separator">'' @ emdash @ ''</span>'' @
           ''<span class="iv-inline-score">7</span>'' @
           ''<span> vs </span>'' @
           ''<span class="iv-inline-challenge-die vs1">3</span>'' @
           ''<span>|</span>'' @
           ''<span class="iv-inline-challenge-die vs2">5</span>'' @
           ''</span>'')
   \<and> min 10 (4 + 3 + 0) = (7::int)
   \<and> getOutcome (min 10 (4 + 3 + 0)) 3 5 = StrongHit
   \<and> isMatch 3 5 = False\<close>
  by code_simp

subsection \<open>Slugs\<close>

lemma unescapeSlashes_nonempty: "s \<noteq> [] \<Longrightarrow> unescapeSlashes s \<noteq> []"
  by (induction s rule: unescapeSlashes.induct) auto

lemma unescapeSlashes_id:
  "\<not> includesStr s [CHR 0x5C, CHR ''/''] \<Longrightarrow> unescapeSlashes s = s"
  by (induction s rule: unescapeSlashes.induct) (auto split: if_splits)

lemma replaceSpaceRuns_no_space: "c \<in> set (replaceSpaceRuns s) \<Longrightarrow> \<not> isWhiteSpace c"
proof (induction s rule: replaceSpaceRuns.induct)
  case 1
  then show ?case by simp
next
  case (2 x xs)
  then show ?case
    by (auto simp: isWhiteSpace_def split: if_splits)
qed

lemma slug_chars:
  assumes "c \<in> set (stripApostrophes (stripParens (replaceSpaceRuns s)))"
  shows "\<not> isWhiteSpace c \<and> c \<noteq> CHR ''('' \<and> c \<noteq> CHR '')'' \<and> c \<noteq> CHR 0x27"
  using assms replaceSpaceRuns_no_space [of c s]
  by (auto simp: stripApostrophes_def stripParens_def)

text \<open>
  C5 (as amended). The two slug routines are related, and need not return the same text.
  On the empty path both return the same text, \<^verbatim>\<open>#\<close>. On every other path the
  slug of the block parser is one slash followed by the slug that the inline parser
  computes for the path with its escaped slashes undone, less the slashes that slug
  starts with; and a path with no escaped slash is its own unescaped form. So the two
  routines agree on the path \<^verbatim>\<open>/foo\<close>, where both return \<^verbatim>\<open>/foo\<close>, and differ on
  \<^verbatim>\<open>Foo Bar.md\<close>, where the inline routine returns \<^verbatim>\<open>foo-bar\<close> and the block
  routine \<^verbatim>\<open>/foo-bar\<close>.
\<close>

theorem slugs_related:
  "(path \<noteq> [] \<longrightarrow>
      pathToSlug_block path =
        CHR ''/'' # dropWhile (\<lambda>c. c = CHR ''/'') (pathToSlug (unescapeSlashes path)))
   \<and> (\<not> includesStr path [CHR 0x5C, CHR ''/''] \<longrightarrow> unescapeSlashes path = path)
   \<and> pathToSlug_block [] = pathToSlug []"
  by (simp add: pathToSlug_block_def pathToSlug_def unescapeSlashes_nonempty unescapeSlashes_id)

theorem slugs_related_witness:
  "pathToSlug_block ''Foo Bar.md'' = CHR ''/'' # dropWhile (\<lambda>c. c = CHR ''/'') (pathToSlug ''Foo Bar.md'')
   \<and> pathToSlug ''Foo Bar.md'' = ''foo-bar''
   \<and> pathToSlug_block ''/foo'' = ''/foo'' \<and> pathToSlug ''/foo'' = ''/foo''"
proof -
  have ne: "''Foo Bar.md'' \<noteq> []" "''/foo'' \<noteq> []" by simp_all
  have un: "unescapeSlashes ''Foo Bar.md'' = ''Foo Bar.md''" "unescapeSlashes ''/foo'' = ''/foo''"
    by code_simp+
  have sl: "pathToSlug ''Foo Bar.md'' = ''foo-bar''" "pathToSlug ''/foo'' = ''/foo''"
    by code_simp+
  from slugs_related [of "''Foo Bar.md''"] slugs_related [of "''/foo''"] ne un sl
  show ?thesis by simp
qed

theorem slugs_differ_counterexample:
  "pathToSlug ''Foo Bar.md'' = ''foo-bar'' \<and> pathToSlug_block ''Foo Bar.md'' = ''/foo-bar''
   \<and> pathToSlug ''Foo Bar.md'' \<noteq> pathToSlug_block ''Foo Bar.md''"
  by code_simp

text \<open>
  C6 (as amended). Each slug routine is a function of the path alone. The block routine
  returns \<^verbatim>\<open>#\<close> for the empty path and for every other path a text that starts
  with exactly one slash; the inline routine returns \<^verbatim>\<open>#\<close> for the empty path and
  adds no slash. No output of either contains white space, a parenthesis or an
  apostrophe.
\<close>

theorem slug_shape:
  "(path \<noteq> [] \<longrightarrow>
      (\<exists>rest. pathToSlug_block path = CHR ''/'' # rest \<and> \<not> startsWith rest ''/''))
   \<and> pathToSlug_block [] = ''#'' \<and> pathToSlug [] = ''#''
   \<and> (\<forall>c \<in> set (pathToSlug_block path) \<union> set (pathToSlug path).
         \<not> isWhiteSpace c \<and> c \<noteq> CHR ''('' \<and> c \<noteq> CHR '')'' \<and> c \<noteq> CHR 0x27)
   \<and> (path = path' \<longrightarrow>
         pathToSlug path = pathToSlug path' \<and> pathToSlug_block path = pathToSlug_block path')"
proof -
  have one: "\<not> startsWith (dropWhile (\<lambda>c. c = CHR ''/'') s) ''/''" for s
    by (induction s) auto
  have sub: "c \<in> set (dropWhile P s) \<Longrightarrow> c \<in> set s" for c P and s :: string
    by (rule set_dropWhileD)
  have chars_block: "\<not> isWhiteSpace c \<and> c \<noteq> CHR ''('' \<and> c \<noteq> CHR '')'' \<and> c \<noteq> CHR 0x27"
    if "c \<in> set (pathToSlug_block path)" for c
    using that slug_chars [of c] 
    by (auto simp: pathToSlug_block_def Let_def isWhiteSpace_def split: if_splits dest!: sub)
  have chars_inline: "\<not> isWhiteSpace c \<and> c \<noteq> CHR ''('' \<and> c \<noteq> CHR '')'' \<and> c \<noteq> CHR 0x27"
    if "c \<in> set (pathToSlug path)" for c
    using that slug_chars [of c] 
    by (auto simp: pathToSlug_def isWhiteSpace_def split: if_splits)
  have shape: "path \<noteq> [] \<longrightarrow>
      (\<exists>rest. pathToSlug_block path = CHR ''/'' # rest \<and> \<not> startsWith rest ''/'')"
    using one by (simp add: pathToSlug_block_def Let_def)
  have empties: "pathToSlug_block [] = ''#'' \<and> pathToSlug [] = ''#''"
    by (simp add: pathToSlug_block_def pathToSlug_def)
  have chars: "\<forall>c \<in> set (pathToSlug_block path) \<union> set (pathToSlug path).
         \<not> isWhiteSpace c \<and> c \<noteq> CHR ''('' \<and> c \<noteq> CHR '')'' \<and> c \<noteq> CHR 0x27"
    using chars_block chars_inline by blast
  from shape empties chars show ?thesis by blast
qed

theorem slug_shape_witness:
  "(\<exists>rest. pathToSlug_block ''/a b'' = CHR ''/'' # rest \<and> \<not> startsWith rest ''/'')
   \<and> CHR '' '' \<notin> set (pathToSlug_block ''/a b'')
   \<and> pathToSlug_block ''/a b'' = ''/a-b''"
proof -
  have ne: "''/a b'' \<noteq> []" by simp
  have ws: "isWhiteSpace (CHR '' '')" by (simp add: isWhiteSpace_def)
  have ev: "pathToSlug_block ''/a b'' = ''/a-b''" by code_simp
  from slug_shape [of "''/a b''" "''/a b''"] ne ws ev show ?thesis by auto
qed

theorem slug_shape_counterexample:
  "pathToSlug ''Foo Bar.md'' = ''foo-bar'' \<and> \<not> startsWith (pathToSlug ''Foo Bar.md'') ''/''
   \<and> pathToSlug_block [] = ''#'' \<and> \<not> startsWith (pathToSlug_block []) ''/''"
  by code_simp

subsection \<open>Substring tests\<close>

lemma includesStr_iff: "includesStr s p = (\<exists>pre post. s = pre @ p @ post)"
proof (induction s)
  case Nil
  show ?case by auto
next
  case (Cons c cs)
  show ?case
  proof
    assume "includesStr (c # cs) p"
    then consider "startsWith (c # cs) p" | "includesStr cs p" by auto
    then show "\<exists>pre post. c # cs = pre @ p @ post"
    proof cases
      case 1
      then obtain post where "c # cs = p @ post" by (auto simp: startsWith_iff)
      then have "c # cs = [] @ p @ post" by simp
      then show ?thesis by blast
    next
      case 2
      with Cons obtain pre post where "cs = pre @ p @ post" by auto
      then have "c # cs = (c # pre) @ p @ post" by simp
      then show ?thesis by blast
    qed
  next
    assume "\<exists>pre post. c # cs = pre @ p @ post"
    then obtain pre post where eq: "c # cs = pre @ p @ post" by blast
    show "includesStr (c # cs) p"
    proof (cases pre)
      case Nil
      with eq have "startsWith (c # cs) p" by (auto simp: startsWith_iff)
      then show ?thesis by simp
    next
      case (Cons a pre')
      with eq have "cs = pre' @ p @ post" by simp
      with Cons.IH have "includesStr cs p" by blast
      then show ?thesis by simp
    qed
  qed
qed

subsection \<open>Escaping in the inline parser\<close>

text \<open>
  C2. Every field that embeds authoring text is to pass through \<^verbatim>\<open>escapeHtml\<close>. The
  inline parser does so for the names and results, but \<^verbatim>\<open>renderOracle\<close> inserts its
  roll field as it is, and \<^verbatim>\<open>renderClockAdvance\<close> its from, to and segments fields:
  on the two codes below the markup characters of these fields reach the output
  unescaped, next to a name and a result that are escaped.
\<close>

theorem escape_gaps: \<open>parseInlineMechanic ''iv-oracle:Action|<b>|"x"'' None =
     Some (''<span class="iv-inline-mechanics oracle">'' @
           ''<span class="iv-inline-oracle-icon">'' @ ICONS_sparkles @ ''</span>'' @
           ''<span class="iv-inline-oracle-name iv-inline-link">Action</span>'' @
           ''<span>(<b>)</span>'' @
           ''<span class="iv-inline-oracle-result">&quot;x&quot;</span>'' @
           ''</span>'')
   \<and> parseInlineMechanic ''iv-clock-advance:Doom|<i>|<u>|"6"|doom.md'' None =
     Some (''<span class="iv-inline-mechanics clock-advance">'' @
           ''<span class="iv-inline-clock-icon">'' @ ICONS_clockArrowUp @ ''</span>'' @
           ''<a href="/doom" class="iv-inline-clock-name iv-inline-link">Doom</a>'' @
           ''<span class="iv-inline-clock-progress"><i> '' @ arrow @ '' <u>/"6"</span>'' @
           ''</span>'')\<close>
  by code_simp

subsection \<open>Splitting a field list\<close>

lemma splitBy_append:
  "sep c \<Longrightarrow> splitBy sep (a @ c # b) = splitBy sep a @ splitBy sep b"
proof (induction a)
  case Nil
  then show ?case by simp
next
  case (Cons x a)
  then show ?case
    using splitBy_nonempty [of sep a] by (cases "splitBy sep a") (auto simp: Let_def)
qed

lemma splitBy_nosep: "\<forall>x \<in> set d. \<not> sep x \<Longrightarrow> splitBy sep d = [d]"
  by (induction d) (auto simp: Let_def)

lemma split_nosep: "c \<notin> set d \<Longrightarrow> split d c = [d]"
  unfolding split_def by (rule splitBy_nosep) auto

lemma split_first: "c \<notin> set a \<Longrightarrow> split (a @ c # s) c = a # split s c"
  using split_nosep [of c a] by (simp add: split_def splitBy_append)

lemma code_fields_nonempty: "code_fields content \<noteq> []"
  by (simp add: code_fields_def split_def splitBy_nonempty)

lemma code_fields_one: "CHR ''|'' \<notin> set a \<Longrightarrow> code_fields a = [a]"
  by (simp add: code_fields_def split_nosep)

lemma code_fields_first:
  "CHR ''|'' \<notin> set a \<Longrightarrow> code_fields (a @ CHR ''|'' # s) = a # code_fields s"
  by (simp add: code_fields_def split_first)

subsection \<open>The dispatch on the kind tag\<close>

lemma code_decompose:
  assumes "CHR '':'' \<notin> set tag"
  shows "indexOf (tag @ CHR '':'' # content) (CHR '':'') = int (length tag)"
    and "substring (tag @ CHR '':'' # content) 0 (int (length tag)) = tag"
    and "substringFrom (tag @ CHR '':'' # content) (int (length tag) + 1) = content"
proof -
  have "takeWhile (\<lambda>x. x \<noteq> CHR '':'') (tag @ CHR '':'' # content) = tag"
    using assms by (simp add: takeWhile_append)
  then show "indexOf (tag @ CHR '':'' # content) (CHR '':'') = int (length tag)"
    by (simp add: indexOf_takeWhile)
  show "substring (tag @ CHR '':'' # content) 0 (int (length tag)) = tag"
    by (simp add: substring_take)
  have "substringFrom (tag @ CHR '':'' # content) (int (Suc (length tag))) = content"
    by (simp only: substringFrom_drop) simp
  then show "substringFrom (tag @ CHR '':'' # content) (int (length tag) + 1) = content"
    by (simp add: add.commute)
qed

lemma dispatch_kind:
  "parseInlineMechanic (kind_tag k @ CHR '':'' # content) files =
     Some (case k of
        Move \<Rightarrow> renderMove content
      | Oracle \<Rightarrow> renderOracle content
      | Meter \<Rightarrow> renderMeter content
      | Burn \<Rightarrow> renderBurn content
      | Initiative \<Rightarrow> renderInitiative content
      | TrackCreate \<Rightarrow> renderTrackCreate content files
      | TrackAdvance \<Rightarrow> renderTrackAdvance content files
      | TrackComplete \<Rightarrow> renderTrackComplete content files
      | ProgressRoll \<Rightarrow> renderProgressRoll content files
      | NoRoll \<Rightarrow> renderNoRoll content
      | EntityCreate \<Rightarrow> renderEntityCreate content files
      | ClockCreate \<Rightarrow> renderClockCreate content files
      | ClockAdvance \<Rightarrow> renderClockAdvance content files
      | ClockResolve \<Rightarrow> renderClockResolve content files
      | Dice \<Rightarrow> renderDice content
      | OOC \<Rightarrow> renderOOC content)"
proof -
  have nc: "CHR '':'' \<notin> set (kind_tag k)" by (cases k) simp_all
  have sw: "startsWith (kind_tag k @ CHR '':'' # content) ''iv-''" by (cases k) simp_all
  have len: "int (length (kind_tag k)) \<noteq> - 1" by simp
  show ?thesis
    unfolding parseInlineMechanic_def Let_def code_decompose [OF nc]
    using sw len by (cases k) simp_all
qed

subsection \<open>Reading a field by position\<close>






















subsection \<open>Defaults for missing fields\<close>




subsection \<open>The class of an initiative code\<close>

lemma initiative_from_read:
  "orStr (nth_opt (split content (CHR ''|'')) 0) [] = initiative_from content"
  using code_fields_nonempty [of content]
  by (cases "code_fields content")
    (auto simp: nth_opt_def orStr_def initiative_from_def code_fields_def)

lemma initiative_to_read:
  "orStr (nth_opt (split content (CHR ''|'')) 1) (initiative_from content) = initiative_to content"
  by (simp add: nth_opt_def orStr_def initiative_from_def initiative_to_def code_fields_def)

lemma renderInitiative_span:
  "renderInitiative content =
     initiative_span (initClass (initiative_to content)) (initiative_from content)
       (initiative_to content)"
  unfolding renderInitiative_def initiative_span_def Let_def
  by (simp only: initiative_from_read initiative_to_read)

lemma initiative_render:
  "parseInlineMechanic (''iv-initiative:'' @ content) filesByName =
     Some (initiative_span (initClass (initiative_to content)) (initiative_from content)
             (initiative_to content))"
  using dispatch_kind [of Initiative content filesByName]
  by (simp add: renderInitiative_span)

lemma initiative_fields_one:
  assumes "CHR ''|'' \<notin> set a"
  shows "initiative_from a = a" and "initiative_to a = a"
  using assms by (simp_all add: initiative_from_def initiative_to_def code_fields_one)

lemma initiative_fields_two:
  assumes "CHR ''|'' \<notin> set a" and "CHR ''|'' \<notin> set b"
  shows "initiative_from (a @ ''|'' @ b) = a"
    and "initiative_to (a @ ''|'' @ b) = (if b = [] then a else b)"
  using assms
  by (simp_all add: initiative_from_def initiative_to_def code_fields_first code_fields_one)

lemma initiative_fields_more:
  assumes "CHR ''|'' \<notin> set a" and "CHR ''|'' \<notin> set b"
  shows "initiative_from (a @ ''|'' @ b @ ''|'' @ rest) = a"
    and "initiative_to (a @ ''|'' @ b @ ''|'' @ rest) = (if b = [] then a else b)"
  using assms
  by (simp_all add: initiative_from_def initiative_to_def code_fields_first)

text \<open>
  C4 (as amended). The class of an \<^verbatim>\<open>iv-initiative\<close> code is chosen by
  case-insensitive substring tests on the to value, which is the second field, and the
  first field when the second is missing or empty (fields after the second are not
  read). The class is \<^verbatim>\<open>initiative-in-control\<close> when the to value contains
  \<^verbatim>\<open>control\<close>, and when it contains \<^verbatim>\<open>initiative\<close> and none of \<^verbatim>\<open>bad\<close> and
  \<^verbatim>\<open>no\<close>; without \<^verbatim>\<open>control\<close> and \<^verbatim>\<open>initiative\<close> it is
  \<^verbatim>\<open>initiative-bad-spot\<close> when the to value contains \<^verbatim>\<open>bad\<close> or \<^verbatim>\<open>no\<close>, else
  \<^verbatim>\<open>initiative-out-of-combat\<close> when it contains \<^verbatim>\<open>out\<close>, else \<^verbatim>\<open>initiative\<close>.
  Nothing is stated for a to value that contains \<^verbatim>\<open>initiative\<close> together with
  \<^verbatim>\<open>bad\<close> or \<^verbatim>\<open>no\<close> and without \<^verbatim>\<open>control\<close>, such as "no initiative". The
  markup has the class, the escaped from value (the first field), the arrow and the
  escaped to value. In particular \<^verbatim>\<open>iv-initiative:out of combat|in control\<close> has the
  class \<^verbatim>\<open>initiative-in-control\<close> and the text "out of combat", arrow, "in control".
\<close>

theorem initiative_class:
  \<open>(mentions (initiative_to content) ''control'' \<longrightarrow>
      parseInlineMechanic (''iv-initiative:'' @ content) filesByName =
        Some (initiative_span ''initiative-in-control'' (initiative_from content)
                (initiative_to content)))
   \<and> (\<not> mentions (initiative_to content) ''control''
        \<and> mentions (initiative_to content) ''initiative''
        \<and> \<not> mentions (initiative_to content) ''bad''
        \<and> \<not> mentions (initiative_to content) ''no'' \<longrightarrow>
      parseInlineMechanic (''iv-initiative:'' @ content) filesByName =
        Some (initiative_span ''initiative-in-control'' (initiative_from content)
                (initiative_to content)))
   \<and> (\<not> mentions (initiative_to content) ''control''
        \<and> \<not> mentions (initiative_to content) ''initiative''
        \<and> (mentions (initiative_to content) ''bad'' \<or> mentions (initiative_to content) ''no'') \<longrightarrow>
      parseInlineMechanic (''iv-initiative:'' @ content) filesByName =
        Some (initiative_span ''initiative-bad-spot'' (initiative_from content)
                (initiative_to content)))
   \<and> (\<not> mentions (initiative_to content) ''control''
        \<and> \<not> mentions (initiative_to content) ''initiative''
        \<and> \<not> mentions (initiative_to content) ''bad''
        \<and> \<not> mentions (initiative_to content) ''no''
        \<and> mentions (initiative_to content) ''out'' \<longrightarrow>
      parseInlineMechanic (''iv-initiative:'' @ content) filesByName =
        Some (initiative_span ''initiative-out-of-combat'' (initiative_from content)
                (initiative_to content)))
   \<and> (\<not> mentions (initiative_to content) ''control''
        \<and> \<not> mentions (initiative_to content) ''initiative''
        \<and> \<not> mentions (initiative_to content) ''bad''
        \<and> \<not> mentions (initiative_to content) ''no''
        \<and> \<not> mentions (initiative_to content) ''out'' \<longrightarrow>
      parseInlineMechanic (''iv-initiative:'' @ content) filesByName =
        Some (initiative_span ''initiative'' (initiative_from content) (initiative_to content)))
   \<and> mentions to w = (\<exists>pre post. toLowerCase to = pre @ w @ post)
   \<and> (CHR ''|'' \<notin> set a \<longrightarrow> initiative_from a = a \<and> initiative_to a = a)
   \<and> (CHR ''|'' \<notin> set a \<and> CHR ''|'' \<notin> set b \<longrightarrow>
        initiative_from (a @ ''|'' @ b) = a
        \<and> initiative_to (a @ ''|'' @ b) = (if b = [] then a else b)
        \<and> initiative_from (a @ ''|'' @ b @ ''|'' @ rest) = a
        \<and> initiative_to (a @ ''|'' @ b @ ''|'' @ rest) = (if b = [] then a else b))
   \<and> parseInlineMechanic ''iv-initiative:out of combat|in control'' filesByName =
          Some (''<span class="iv-inline-mechanics initiative-in-control">'' @
                ''<span class="iv-inline-initiative-icon">'' @ ICONS_footprints @ ''</span>'' @
                ''<span class="iv-inline-initiative-label">Position:</span>'' @
                ''<span class="iv-inline-initiative-change">out of combat '' @ arrow @
                  '' in control</span>'' @
                ''</span>'')\<close>
proof -
  let ?t = "initiative_to content"
  let ?out = "\<lambda>cls. parseInlineMechanic (''iv-initiative:'' @ content) filesByName =
        Some (initiative_span cls (initiative_from content) (initiative_to content))"
  note r = initiative_render [of content filesByName]
  have 1: "mentions ?t ''control'' \<longrightarrow> ?out ''initiative-in-control''"
    using r by (simp add: initClass_def mentions_def Let_def)
  have 2: "\<not> mentions ?t ''control'' \<and> mentions ?t ''initiative''
        \<and> \<not> mentions ?t ''bad'' \<and> \<not> mentions ?t ''no'' \<longrightarrow> ?out ''initiative-in-control''"
    using r by (simp add: initClass_def mentions_def Let_def)
  have 3: "\<not> mentions ?t ''control'' \<and> \<not> mentions ?t ''initiative''
        \<and> (mentions ?t ''bad'' \<or> mentions ?t ''no'') \<longrightarrow> ?out ''initiative-bad-spot''"
    using r by (simp add: initClass_def mentions_def Let_def)
  have 4: "\<not> mentions ?t ''control'' \<and> \<not> mentions ?t ''initiative''
        \<and> \<not> mentions ?t ''bad'' \<and> \<not> mentions ?t ''no'' \<and> mentions ?t ''out'' \<longrightarrow>
        ?out ''initiative-out-of-combat''"
    using r by (simp add: initClass_def mentions_def Let_def)
  have 5: "\<not> mentions ?t ''control'' \<and> \<not> mentions ?t ''initiative''
        \<and> \<not> mentions ?t ''bad'' \<and> \<not> mentions ?t ''no'' \<and> \<not> mentions ?t ''out'' \<longrightarrow>
        ?out ''initiative''"
    using r by (simp add: initClass_def mentions_def Let_def)
  have 6: "mentions to w = (\<exists>pre post. toLowerCase to = pre @ w @ post)"
    by (simp add: mentions_def includesStr_iff)
  have 7: "CHR ''|'' \<notin> set a \<longrightarrow> initiative_from a = a \<and> initiative_to a = a"
    by (simp add: initiative_fields_one)
  have 8: "CHR ''|'' \<notin> set a \<and> CHR ''|'' \<notin> set b \<longrightarrow>
        initiative_from (a @ ''|'' @ b) = a
        \<and> initiative_to (a @ ''|'' @ b) = (if b = [] then a else b)
        \<and> initiative_from (a @ ''|'' @ b @ ''|'' @ rest) = a
        \<and> initiative_to (a @ ''|'' @ b @ ''|'' @ rest) = (if b = [] then a else b)"
    using initiative_fields_two [of a b] initiative_fields_more [of a b rest] by blast
  have 9: \<open>parseInlineMechanic ''iv-initiative:out of combat|in control'' filesByName =
          Some (''<span class="iv-inline-mechanics initiative-in-control">'' @
                ''<span class="iv-inline-initiative-icon">'' @ ICONS_footprints @ ''</span>'' @
                ''<span class="iv-inline-initiative-label">Position:</span>'' @
                ''<span class="iv-inline-initiative-change">out of combat '' @ arrow @
                  '' in control</span>'' @
                ''</span>'')\<close>
    by code_simp
  from 1 2 3 4 5 6 7 8 9 show ?thesis by blast
qed

theorem initiative_class_witness:
  \<open>parseInlineMechanic ''iv-initiative:out of combat|'' None =
     Some (initiative_span ''initiative-out-of-combat'' ''out of combat'' ''out of combat'')
   \<and> parseInlineMechanic ''iv-initiative:in control|In a BAD spot|x'' None =
     Some (initiative_span ''initiative-bad-spot'' ''in control'' ''In a BAD spot'')
   \<and> parseInlineMechanic ''iv-initiative:out of combat|in control'' None =
     Some (initiative_span ''initiative-in-control'' ''out of combat'' ''in control'')
   \<and> parseInlineMechanic ''iv-initiative:Has Initiative'' None =
     Some (initiative_span ''initiative-in-control'' ''Has Initiative'' ''Has Initiative'')
   \<and> parseInlineMechanic ''iv-initiative:ready|set'' None =
     Some (initiative_span ''initiative'' ''ready'' ''set'')\<close>
proof -
  have f1: "initiative_from ''out of combat|'' = ''out of combat''"
    "initiative_to ''out of combat|'' = ''out of combat''"
    using initiative_class [of _ _ _ _ "''out of combat''" "[]"] by simp_all
  have f2: "initiative_from ''in control|In a BAD spot|x'' = ''in control''"
    "initiative_to ''in control|In a BAD spot|x'' = ''In a BAD spot''"
    using initiative_class [of _ _ _ _ "''in control''" "''In a BAD spot''" "''x''"] by simp_all
  have f3: "initiative_from ''out of combat|in control'' = ''out of combat''"
    "initiative_to ''out of combat|in control'' = ''in control''"
    using initiative_class [of _ _ _ _ "''out of combat''" "''in control''"] by simp_all
  have f4: "initiative_from ''Has Initiative'' = ''Has Initiative''"
    "initiative_to ''Has Initiative'' = ''Has Initiative''"
    using initiative_class [of _ _ _ _ "''Has Initiative''"] by simp_all
  have f5: "initiative_from ''ready|set'' = ''ready''" "initiative_to ''ready|set'' = ''set''"
    using initiative_class [of _ _ _ _ "''ready''" "''set''"] by simp_all
  have m1: "\<not> mentions ''out of combat'' ''control''" "\<not> mentions ''out of combat'' ''initiative''"
    "\<not> mentions ''out of combat'' ''bad''" "\<not> mentions ''out of combat'' ''no''"
    "mentions ''out of combat'' ''out''"
    by code_simp+
  have m2: "\<not> mentions ''In a BAD spot'' ''control''" "\<not> mentions ''In a BAD spot'' ''initiative''"
    "mentions ''In a BAD spot'' ''bad''"
    by code_simp+
  have m3: "mentions ''in control'' ''control''"
    by code_simp
  have m4: "\<not> mentions ''Has Initiative'' ''control''" "mentions ''Has Initiative'' ''initiative''"
    "\<not> mentions ''Has Initiative'' ''bad''" "\<not> mentions ''Has Initiative'' ''no''"
    by code_simp+
  have m5: "\<not> mentions ''set'' ''control''" "\<not> mentions ''set'' ''initiative''"
    "\<not> mentions ''set'' ''bad''" "\<not> mentions ''set'' ''no''" "\<not> mentions ''set'' ''out''"
    by code_simp+
  have eq: "''iv-initiative:'' @ ''out of combat|'' = ''iv-initiative:out of combat|''"
    "''iv-initiative:'' @ ''in control|In a BAD spot|x'' = ''iv-initiative:in control|In a BAD spot|x''"
    "''iv-initiative:'' @ ''out of combat|in control'' = ''iv-initiative:out of combat|in control''"
    "''iv-initiative:'' @ ''Has Initiative'' = ''iv-initiative:Has Initiative''"
    "''iv-initiative:'' @ ''ready|set'' = ''iv-initiative:ready|set''"
    by simp_all
  from initiative_class [of "''out of combat|''" None] m1
  have a: "parseInlineMechanic (''iv-initiative:'' @ ''out of combat|'') None =
     Some (initiative_span ''initiative-out-of-combat'' ''out of combat'' ''out of combat'')"
    unfolding f1 by blast
  from initiative_class [of "''in control|In a BAD spot|x''" None] m2
  have b: "parseInlineMechanic (''iv-initiative:'' @ ''in control|In a BAD spot|x'') None =
     Some (initiative_span ''initiative-bad-spot'' ''in control'' ''In a BAD spot'')"
    unfolding f2 by blast
  from initiative_class [of "''out of combat|in control''" None] m3
  have c: "parseInlineMechanic (''iv-initiative:'' @ ''out of combat|in control'') None =
     Some (initiative_span ''initiative-in-control'' ''out of combat'' ''in control'')"
    unfolding f3 by blast
  from initiative_class [of "''Has Initiative''" None] m4
  have d: "parseInlineMechanic (''iv-initiative:'' @ ''Has Initiative'') None =
     Some (initiative_span ''initiative-in-control'' ''Has Initiative'' ''Has Initiative'')"
    unfolding f4 by blast
  from initiative_class [of "''ready|set''" None] m5
  have e: "parseInlineMechanic (''iv-initiative:'' @ ''ready|set'') None =
     Some (initiative_span ''initiative'' ''ready'' ''set'')"
    unfolding f5 by blast
  from a b c d e show ?thesis unfolding eq by blast
qed

theorem initiative_other_substrings_counterexample:
  \<open>parseInlineMechanic ''iv-initiative:in control|unknown'' None =
          Some (''<span class="iv-inline-mechanics initiative-bad-spot">'' @
                ''<span class="iv-inline-initiative-icon">'' @ ICONS_footprints @ ''</span>'' @
                ''<span class="iv-inline-initiative-label">Position:</span>'' @
                ''<span class="iv-inline-initiative-change">in control '' @ arrow @
                  '' unknown</span>'' @
                ''</span>'')
   \<and> \<not> includesStr (toLowerCase ''unknown'') ''control''
   \<and> \<not> includesStr (toLowerCase ''unknown'') ''bad''
   \<and> \<not> includesStr (toLowerCase ''unknown'') ''out''\<close>
  by code_simp

subsection \<open>Progress statements\<close>

lemma lowerChar_not_upper:
  "\<not> (65 \<le> (of_char (lowerChar c) :: nat) \<and> (of_char (lowerChar c) :: nat) \<le> 90)"
  by (auto simp: lowerChar_def Let_def)

lemma toLowerCase_not_upper:
  "x \<in> set (toLowerCase s) \<Longrightarrow> \<not> (65 \<le> (of_char x :: nat) \<and> (of_char x :: nat) \<le> 90)"
  using lowerChar_not_upper by (auto simp: toLowerCase_def)

lemma ticksPerStep_lower:
  "ticksPerStep (toLowerCase r) =
     (case rank_table (toLowerCase r) of
        Some t \<Rightarrow> Own t
      | None \<Rightarrow> if toLowerCase r \<in> {''constructor'', ''__proto__''} then Inherited else Undefined)"
proof -
  have no: "toLowerCase r \<noteq> k" if "x \<in> set k" "65 \<le> (of_char x :: nat) \<and> (of_char x :: nat) \<le> 90" for k x
    using that toLowerCase_not_upper [of x r] by auto
  have "toLowerCase r \<noteq> ''hasOwnProperty''" by (rule no [of "CHR ''O''"]) simp_all
  moreover have "toLowerCase r \<noteq> ''isPrototypeOf''" by (rule no [of "CHR ''P''"]) simp_all
  moreover have "toLowerCase r \<noteq> ''propertyIsEnumerable''" by (rule no [of "CHR ''I''"]) simp_all
  moreover have "toLowerCase r \<noteq> ''toLocaleString''" by (rule no [of "CHR ''L''"]) simp_all
  moreover have "toLowerCase r \<noteq> ''toString''" by (rule no [of "CHR ''S''"]) simp_all
  moreover have "toLowerCase r \<noteq> ''valueOf''" by (rule no [of "CHR ''O''"]) simp_all
  moreover have "toLowerCase r \<noteq> ''__defineGetter__''" by (rule no [of "CHR ''G''"]) simp_all
  moreover have "toLowerCase r \<noteq> ''__defineSetter__''" by (rule no [of "CHR ''S''"]) simp_all
  moreover have "toLowerCase r \<noteq> ''__lookupGetter__''" by (rule no [of "CHR ''G''"]) simp_all
  moreover have "toLowerCase r \<noteq> ''__lookupSetter__''" by (rule no [of "CHR ''S''"]) simp_all
  ultimately show ?thesis
    by (simp add: ticksPerStep_def rank_table_def)
qed

lemma ticksPerStep_known:
  assumes "toLowerCase r \<notin> {''constructor'', ''__proto__''}"
  shows "(case ticksPerStep (toLowerCase r) of
            Own t \<Rightarrow> Some (t * s) | Undefined \<Rightarrow> Some (4 * s) | Inherited \<Rightarrow> None) =
         Some (ticks_per_step r * s)"
  using assms
  by (simp add: ticksPerStep_lower ticks_per_step_def split: option.splits)

lemma int_attr_Some:
  assumes "int_attr x d = Some v" and "abs d \<le> 2 ^ 48"
  shows "modelled x" and "orVal x (Num d) = Num v" and "abs v \<le> 2 ^ 48"
  using assms
  by (auto simp: int_attr_def modelled_def orVal_def split: option.splits jsval.splits if_splits)

lemma str_attr_Some:
  assumes "str_attr x = Some v"
  shows "modelled x" and "orVal x (Str d) = Str (if v = [] then d else v)"
  using assms
  by (auto simp: str_attr_def modelled_def orVal_def split: option.splits jsval.splits if_splits)

lemma progressCalc_value:
  assumes s: "int_attr (parseProps line ''steps'') 1 = Some s"
    and f: "int_attr (parseProps line ''from'') 0 = Some f"
    and r1: "str_attr (parseProps line ''rank'') = Some r1"
    and r2: "str_attr (parseProps line ''level'') = Some r2"
    and nm: "str_attr (parseProps line ''name'') = Some nm"
    and r: "r = (if r1 = [] then r2 else r1)"
    and known: "toLowerCase r \<notin> {''constructor'', ''__proto__''}"
  shows \<open>progressCalc line =
     Some (Inr \<lparr> slug = (case searchFirst (matchWikiAt ''name="[['' '']]"'') line of
                            Some (g1, g2) \<Rightarrow> pathToSlug_block g1 | None \<Rightarrow> ''#''),
                 trackName = (case searchFirst (matchWikiAt ''name="[['' '']]"'') line of
                            Some (g1, g2) \<Rightarrow> g2 | None \<Rightarrow> nm),
                 steps = s, rank = r, from_ticks = f,
                 fromBoxes = f div 4, fromTicks = jsRem f 4,
                 ticksToAdd = Some (ticks_per_step r * s),
                 newProgress = Some (f + ticks_per_step r * s),
                 toBoxes = Some ((f + ticks_per_step r * s) div 4),
                 toTicks = Some (jsRem (f + ticks_per_step r * s) 4) \<rparr>)\<close>
proof -
  have m: "modelled (parseProps line ''name'')" "modelled (parseProps line ''steps'')"
    "modelled (parseProps line ''rank'')" "modelled (parseProps line ''level'')"
    "modelled (parseProps line ''from'')"
    using int_attr_Some(1) [OF s] int_attr_Some(1) [OF f] str_attr_Some(1) [OF r1]
      str_attr_Some(1) [OF r2] str_attr_Some(1) [OF nm]
    by simp_all
  have st: "orVal (parseProps line ''steps'') (Num 1) = Num s" "abs s \<le> 2 ^ 48"
    using int_attr_Some(2,3) [OF s] by simp_all
  have fr: "orVal (parseProps line ''from'') (Num 0) = Num f" "abs f \<le> 2 ^ 48"
    using int_attr_Some(2,3) [OF f] by simp_all
  have lv: "orVal (parseProps line ''level'') (Str []) = Str r2"
    using str_attr_Some(2) [OF r2, of "[]"] by simp
  have rk: "orVal (parseProps line ''rank'') (Str r2) = Str r"
    using str_attr_Some(2) [OF r1, of r2] r by simp
  have nam: "orVal (parseProps line ''name'') (Str []) = Str nm"
    using str_attr_Some(2) [OF nm, of "[]"] by simp
  note tk = ticksPerStep_known [OF known, of s]
  show ?thesis
    unfolding progressCalc_def Let_def
    using st(2) fr(2)
    by (simp add: m st(1) fr(1) lv rk nam tk split: option.splits prod.splits)
qed

text \<open>
  C8 (as amended). For every progress line whose steps and from attributes are absent or
  unquoted integers of at most \<open>2 ^ 48\<close> in magnitude, whose rank, level and name
  attributes are absent or quoted, and whose rank is not one of the two keys
  \<^verbatim>\<open>constructor\<close> and \<^verbatim>\<open>__proto__\<close>: the steps are the steps attribute, and 1 when
  it is absent or zero; the rank is the quoted rank attribute, and the quoted level
  attribute when there is no rank or an empty one; \<open>ticksToAdd\<close> is the table's entry
  for the lower-cased rank, and 4 for a rank the table does not have, times the steps;
  the new total is from plus \<open>ticksToAdd\<close>; the boxes of the from value and of the new
  total are the total divided by 4 and rounded down (\<open>div\<close> on \<^typ>\<open>int\<close>), and the
  remaining ticks of a total that is not negative are the total modulo 4. The line
  renders with these values. An attribute written \<^verbatim>\<open>rank=dangerous\<close>, without quotes,
  is not read: the line of the scenario renders 8 ticks to add, to-boxes 2 and to-ticks
  3, and with \<^verbatim>\<open>rank="dangerous"\<close> it renders 16 ticks to add, a new total of 19,
  to-boxes 4, to-ticks 3, from-boxes 0, from-ticks 3.
\<close>

theorem progress_ticks:
  \<open>(int_attr (parseProps line ''steps'') 1 = Some s
    \<and> int_attr (parseProps line ''from'') 0 = Some f
    \<and> str_attr (parseProps line ''rank'') = Some r1
    \<and> str_attr (parseProps line ''level'') = Some r2
    \<and> str_attr (parseProps line ''name'') = Some nm
    \<and> r = (if r1 = [] then r2 else r1)
    \<and> toLowerCase r \<notin> {''constructor'', ''__proto__''} \<longrightarrow>
      (\<exists>c. progressCalc line = Some (Inr c)
         \<and> parseProgressBlock line = Some (Inr (renderProgress c))
         \<and> steps c = s \<and> from_ticks c = f \<and> rank c = r
         \<and> ticksToAdd c = Some (ticks_per_step r * s)
         \<and> newProgress c = Some (f + ticks_per_step r * s)
         \<and> fromBoxes c = f div 4
         \<and> toBoxes c = Some ((f + ticks_per_step r * s) div 4)
         \<and> (0 \<le> f \<longrightarrow> fromTicks c = f mod 4)
         \<and> (0 \<le> f + ticks_per_step r * s \<longrightarrow>
              toTicks c = Some ((f + ticks_per_step r * s) mod 4))))
   \<and> ticks_per_step ''troublesome'' = 12 \<and> ticks_per_step ''dangerous'' = 8
   \<and> ticks_per_step ''formidable'' = 4 \<and> ticks_per_step ''extreme'' = 2
   \<and> ticks_per_step ''epic'' = 1
   \<and> (toLowerCase r \<notin> {''troublesome'', ''dangerous'', ''formidable'', ''extreme'', ''epic''} \<longrightarrow>
        ticks_per_step r = 4)
   \<and> parseProgressBlock ''progress name="[[Foo|Foo Track]]" rank="dangerous" steps=2 from=3'' =
       Some (Inr (''<dl class="progress">\<newline>'' @
            ''    <dt>Progress</dt>\<newline>'' @
            ''    <dd class="track-name"><a href="/foo">Foo Track</a></dd>\<newline>'' @
            ''    <dd class="steps positive">2</dd>\<newline>'' @
            ''    <dd class="rank">dangerous</dd>\<newline>'' @
            ''    <dd class="from-boxes">0</dd>\<newline>'' @
            ''    <dd class="from-ticks">3</dd>\<newline>'' @
            ''    <dd class="to-boxes">4</dd>\<newline>'' @
            ''    <dd class="to-ticks">3</dd>\<newline>'' @
            ''  </dl>''))
   \<and> parseProgressBlock ''progress name="[[Foo|Foo Track]]" rank=dangerous steps=2 from=3'' =
       Some (Inr (''<dl class="progress">\<newline>'' @
            ''    <dt>Progress</dt>\<newline>'' @
            ''    <dd class="track-name"><a href="/foo">Foo Track</a></dd>\<newline>'' @
            ''    <dd class="steps positive">2</dd>\<newline>'' @
            ''    <dd class="rank"></dd>\<newline>'' @
            ''    <dd class="from-boxes">0</dd>\<newline>'' @
            ''    <dd class="from-ticks">3</dd>\<newline>'' @
            ''    <dd class="to-boxes">2</dd>\<newline>'' @
            ''    <dd class="to-ticks">3</dd>\<newline>'' @
            ''  </dl>''))\<close>
proof -
  have general: "\<exists>c. progressCalc line = Some (Inr c)
         \<and> parseProgressBlock line = Some (Inr (renderProgress c))
         \<and> steps c = s \<and> from_ticks c = f \<and> rank c = r
         \<and> ticksToAdd c = Some (ticks_per_step r * s)
         \<and> newProgress c = Some (f + ticks_per_step r * s)
         \<and> fromBoxes c = f div 4
         \<and> toBoxes c = Some ((f + ticks_per_step r * s) div 4)
         \<and> (0 \<le> f \<longrightarrow> fromTicks c = f mod 4)
         \<and> (0 \<le> f + ticks_per_step r * s \<longrightarrow>
              toTicks c = Some ((f + ticks_per_step r * s) mod 4))"
    if h: "int_attr (parseProps line ''steps'') 1 = Some s
    \<and> int_attr (parseProps line ''from'') 0 = Some f
    \<and> str_attr (parseProps line ''rank'') = Some r1
    \<and> str_attr (parseProps line ''level'') = Some r2
    \<and> str_attr (parseProps line ''name'') = Some nm
    \<and> r = (if r1 = [] then r2 else r1)
    \<and> toLowerCase r \<notin> {''constructor'', ''__proto__''}"
  proof -
    from h have calc: \<open>progressCalc line =
     Some (Inr \<lparr> slug = (case searchFirst (matchWikiAt ''name="[['' '']]"'') line of
                            Some (g1, g2) \<Rightarrow> pathToSlug_block g1 | None \<Rightarrow> ''#''),
                 trackName = (case searchFirst (matchWikiAt ''name="[['' '']]"'') line of
                            Some (g1, g2) \<Rightarrow> g2 | None \<Rightarrow> nm),
                 steps = s, rank = r, from_ticks = f,
                 fromBoxes = f div 4, fromTicks = jsRem f 4,
                 ticksToAdd = Some (ticks_per_step r * s),
                 newProgress = Some (f + ticks_per_step r * s),
                 toBoxes = Some ((f + ticks_per_step r * s) div 4),
                 toTicks = Some (jsRem (f + ticks_per_step r * s) 4) \<rparr>)\<close>
      by (intro progressCalc_value [of line s f r1 r2 nm r]) blast+
    have "parseProgressBlock line = Some (Inr (renderProgress c))
         \<and> steps c = s \<and> from_ticks c = f \<and> rank c = r
         \<and> ticksToAdd c = Some (ticks_per_step r * s)
         \<and> newProgress c = Some (f + ticks_per_step r * s)
         \<and> fromBoxes c = f div 4
         \<and> toBoxes c = Some ((f + ticks_per_step r * s) div 4)
         \<and> (0 \<le> f \<longrightarrow> fromTicks c = f mod 4)
         \<and> (0 \<le> f + ticks_per_step r * s \<longrightarrow>
              toTicks c = Some ((f + ticks_per_step r * s) mod 4))"
      if "progressCalc line = Some (Inr c)" for c
      using that calc by (auto simp: parseProgressBlock_def jsRem_def)
    with calc show ?thesis by blast
  qed
  have table: "ticks_per_step ''troublesome'' = 12" "ticks_per_step ''dangerous'' = 8"
    "ticks_per_step ''formidable'' = 4" "ticks_per_step ''extreme'' = 2"
    "ticks_per_step ''epic'' = 1"
    by code_simp+
  have other: "toLowerCase r \<notin> {''troublesome'', ''dangerous'', ''formidable'', ''extreme'', ''epic''} \<longrightarrow>
        ticks_per_step r = 4"
    by (simp add: ticks_per_step_def rank_table_def)
  have quoted: \<open>parseProgressBlock ''progress name="[[Foo|Foo Track]]" rank="dangerous" steps=2 from=3'' =
       Some (Inr (''<dl class="progress">\<newline>'' @
            ''    <dt>Progress</dt>\<newline>'' @
            ''    <dd class="track-name"><a href="/foo">Foo Track</a></dd>\<newline>'' @
            ''    <dd class="steps positive">2</dd>\<newline>'' @
            ''    <dd class="rank">dangerous</dd>\<newline>'' @
            ''    <dd class="from-boxes">0</dd>\<newline>'' @
            ''    <dd class="from-ticks">3</dd>\<newline>'' @
            ''    <dd class="to-boxes">4</dd>\<newline>'' @
            ''    <dd class="to-ticks">3</dd>\<newline>'' @
            ''  </dl>''))\<close>
    by code_simp
  have unquoted: \<open>parseProgressBlock ''progress name="[[Foo|Foo Track]]" rank=dangerous steps=2 from=3'' =
       Some (Inr (''<dl class="progress">\<newline>'' @
            ''    <dt>Progress</dt>\<newline>'' @
            ''    <dd class="track-name"><a href="/foo">Foo Track</a></dd>\<newline>'' @
            ''    <dd class="steps positive">2</dd>\<newline>'' @
            ''    <dd class="rank"></dd>\<newline>'' @
            ''    <dd class="from-boxes">0</dd>\<newline>'' @
            ''    <dd class="from-ticks">3</dd>\<newline>'' @
            ''    <dd class="to-boxes">2</dd>\<newline>'' @
            ''    <dd class="to-ticks">3</dd>\<newline>'' @
            ''  </dl>''))\<close>
    by code_simp
  from general table other quoted unquoted show ?thesis by blast
qed

theorem progress_ticks_witness:
  \<open>parseProps ''progress name="[[Foo|Foo Track]]" rank="dangerous" steps=2 from=3'' ''rank'' =
     Some (Str ''dangerous'')
   \<and> parseProps ''progress name="[[Foo|Foo Track]]" rank="dangerous" steps=2 from=3'' ''steps'' =
     Some (Num 2)
   \<and> parseProps ''progress name="[[Foo|Foo Track]]" rank="dangerous" steps=2 from=3'' ''from'' =
     Some (Num 3)
   \<and> parseProps ''progress name="[[Foo|Foo Track]]" rank="dangerous" steps=2 from=3'' ''level'' =
     None
   \<and> (\<exists>c. parseProgressBlock ''progress name="[[Foo|Foo Track]]" rank="dangerous" steps=2 from=3'' =
            Some (Inr (renderProgress c))
          \<and> steps c = 2 \<and> from_ticks c = 3 \<and> rank c = ''dangerous''
          \<and> ticksToAdd c = Some 16 \<and> newProgress c = Some 19
          \<and> fromBoxes c = 0 \<and> fromTicks c = 3 \<and> toBoxes c = Some 4 \<and> toTicks c = Some 3)\<close>
proof -
  let ?line = \<open>''progress name="[[Foo|Foo Track]]" rank="dangerous" steps=2 from=3''\<close>
  have p: "parseProps ?line ''rank'' = Some (Str ''dangerous'')"
    "parseProps ?line ''steps'' = Some (Num 2)" "parseProps ?line ''from'' = Some (Num 3)"
    "parseProps ?line ''level'' = None"
    by code_simp+
  have nm: "parseProps ?line ''name'' = Some (Str ''[[Foo|Foo Track]]'')"
    by code_simp
  have h: "int_attr (parseProps ?line ''steps'') 1 = Some 2"
    "int_attr (parseProps ?line ''from'') 0 = Some 3"
    "str_attr (parseProps ?line ''rank'') = Some ''dangerous''"
    "str_attr (parseProps ?line ''level'') = Some []"
    "str_attr (parseProps ?line ''name'') = Some ''[[Foo|Foo Track]]''"
    "''dangerous'' = (if ''dangerous'' = [] then [] else ''dangerous'')"
    by (simp_all add: p nm int_attr_def str_attr_def)
  have k: "toLowerCase ''dangerous'' \<notin> {''constructor'', ''__proto__''}"
    by code_simp
  from progress_ticks [of ?line 2 3 "''dangerous''" "[]" "''[[Foo|Foo Track]]''" "''dangerous''"] h k
  obtain c where c: "parseProgressBlock ?line = Some (Inr (renderProgress c))"
    "steps c = 2" "from_ticks c = 3" "rank c = ''dangerous''"
    "ticksToAdd c = Some (ticks_per_step ''dangerous'' * 2)"
    "newProgress c = Some (3 + ticks_per_step ''dangerous'' * 2)"
    "fromBoxes c = 3 div 4"
    "toBoxes c = Some ((3 + ticks_per_step ''dangerous'' * 2) div 4)"
    "0 \<le> (3::int) \<longrightarrow> fromTicks c = 3 mod 4"
    "0 \<le> 3 + ticks_per_step ''dangerous'' * 2 \<longrightarrow>
       toTicks c = Some ((3 + ticks_per_step ''dangerous'' * 2) mod 4)"
    and t: "ticks_per_step ''dangerous'' = 8"
    by blast
  from c have "parseProgressBlock ?line = Some (Inr (renderProgress c))
          \<and> steps c = 2 \<and> from_ticks c = 3 \<and> rank c = ''dangerous''
          \<and> ticksToAdd c = Some 16 \<and> newProgress c = Some 19
          \<and> fromBoxes c = 0 \<and> fromTicks c = 3 \<and> toBoxes c = Some 4 \<and> toTicks c = Some 3"
    unfolding t by simp
  then have "\<exists>c. parseProgressBlock ?line = Some (Inr (renderProgress c))
          \<and> steps c = 2 \<and> from_ticks c = 3 \<and> rank c = ''dangerous''
          \<and> ticksToAdd c = Some 16 \<and> newProgress c = Some 19
          \<and> fromBoxes c = 0 \<and> fromTicks c = 3 \<and> toBoxes c = Some 4 \<and> toTicks c = Some 3"
    by (rule exI)
  with p show ?thesis by blast
qed

theorem progress_unquoted_rank_counterexample:
  \<open>progressCalc ''progress name="[[Foo|Foo Track]]" rank=dangerous steps=2 from=3'' =
     Some (Inr \<lparr> slug = ''/foo'', trackName = ''Foo Track'', steps = 2, rank = [],
           from_ticks = 3, fromBoxes = 0, fromTicks = 3, ticksToAdd = Some 8,
           newProgress = Some 11, toBoxes = Some 2, toTicks = Some 3 \<rparr>)
   \<and> parseProps ''progress name="[[Foo|Foo Track]]" rank=dangerous steps=2 from=3'' ''rank'' = None\<close>
  by code_simp

subsection \<open>Facts about the scanner\<close>

lemma dispatch_total:
  assumes "i < length lines"
  shows "\<exists>x e. dispatch lines i = Inr (x, e)"
proof -
  have "\<exists>x e. braced k lines i = Inr (x, e)" for k
    using collectBlock_total [OF assms] by (auto simp: braced_def)
  with assms show ?thesis
    unfolding dispatch_def Let_def by simp
qed

lemma collectLoop_count:
  "collectLoop lines collected braceCount j = (collected', e) \<Longrightarrow> e + 1 < length lines \<Longrightarrow>
     braceCount + sum_list (map braceDelta (take (e - j) (drop (j + 1) lines))) \<le> 0"
proof (induction lines collected braceCount j rule: collectLoop.induct)
  case (1 lines collected braceCount i)
  show ?case
  proof (cases "braceCount > 0 \<and> i + 1 < length lines")
    case False
    with "1.prems" show ?thesis by (auto simp: collectLoop.simps [of lines collected braceCount i])
  next
    case True
    with "1.prems" have rec: "collectLoop lines (collected @ [lines ! (i + 1)])
             (braceCount + braceDelta (lines ! (i + 1))) (i + 1) = (collected', e)"
      by (simp add: collectLoop.simps [of lines collected braceCount i])
    from collectLoop_bounds [OF rec] have a: "i + 1 \<le> e" by simp
    have "take (e - i) (drop (i + 1) lines) = lines ! (i + 1) # take (e - (i + 1)) (drop (i + 1 + 1) lines)"
    proof -
      from True have "drop (i + 1) lines = lines ! (i + 1) # drop (i + 1 + 1) lines"
        by (simp add: Cons_nth_drop_Suc)
      moreover from a have "e - i = Suc (e - (i + 1))" by simp
      ultimately show ?thesis by simp
    qed
    with "1.IH" [OF True rec "1.prems"(2)] show ?thesis by simp
  qed
qed

lemma collectBlock_count:
  assumes "collectBlock lines i = Inr (content, e)" and "e + 1 < length lines"
  shows "sum_list (map braceDelta (take (e + 1 - i) (drop i lines))) \<le> 0"
proof -
  note cb = collectBlock_Inr [OF assms(1)]
  from assms(1) cb(1) obtain collected where
    loop: "collectLoop lines [lines ! i] (braceDelta (lines ! i)) i = (collected, e)"
    by (auto simp: collectBlock_def split: prod.splits)
  from cb(1) have "drop i lines = lines ! i # drop (i + 1) lines"
    by (simp add: Cons_nth_drop_Suc)
  moreover from cb(2) have "e + 1 - i = Suc (e - i)" by simp
  ultimately have "take (e + 1 - i) (drop i lines) = lines ! i # take (e - i) (drop (i + 1) lines)"
    by simp
  with collectLoop_count [OF loop assms(2)] show ?thesis by simp
qed

lemma braceInner_between:
  assumes "indexOf content (CHR ''{'') \<noteq> - 1" and "lastIndexOf content (CHR ''}'') \<noteq> - 1"
  shows "indexOf content (CHR ''{'') < lastIndexOf content (CHR ''}'') \<Longrightarrow>
           braceInner content =
             trim (take (nat (lastIndexOf content (CHR ''}'') - (indexOf content (CHR ''{'') + 1)))
                     (drop (nat (indexOf content (CHR ''{'') + 1)) content))"
    and "lastIndexOf content (CHR ''}'') < indexOf content (CHR ''{'') \<Longrightarrow>
           braceInner content =
             trim (take (nat (indexOf content (CHR ''{'') + 1 - lastIndexOf content (CHR ''}'')))
                     (drop (nat (lastIndexOf content (CHR ''}''))) content))"
proof -
  let ?bs = "indexOf content (CHR ''{'')" and ?be = "lastIndexOf content (CHR ''}'')"
  from assms indexOf_ge [of content "CHR ''{''"] indexOf_less [of content "CHR ''{''"]
    lastIndexOf_bounds [of content "CHR ''}''"]
  have r: "0 \<le> ?bs" "?bs < int (length content)" "0 \<le> ?be" "?be < int (length content)"
    by auto
  show "braceInner content = trim (take (nat (?be - (?bs + 1))) (drop (nat (?bs + 1)) content))"
    if "?bs < ?be"
    using that r by (simp add: braceInner_def substring_def Let_def min_def max_def)
  show "braceInner content = trim (take (nat (?bs + 1 - ?be)) (drop (nat ?be) content))"
    if "?be < ?bs"
    using that r by (simp add: braceInner_def substring_def Let_def min_def max_def)
qed

lemma scanner_errors:
  "parseIronVaultBlock R content = Inl err \<Longrightarrow> \<exists>k s. R k s = Inl err"
  "scanLines R lines i results = Inl err \<Longrightarrow> \<exists>k s. R k s = Inl err"
  "parseActorBlock R content' = Inl err \<Longrightarrow> \<exists>k s. R k s = Inl err"
proof (induction R content and R lines i results and R content'
    rule: parseIronVaultBlock_scanLines_parseActorBlock.induct)
  case (1 R content)
  then show ?case
    by (auto simp: parseIronVaultBlock.simps [of R content] split: sum.splits)
next
  case (2 R lines i results)
  from "2.prems" have lt: "i < length lines"
    by (auto simp: scanLines.simps [of R lines i results] split: if_splits)
  then obtain x e where d: "dispatch lines i = Inr (x, e)"
    using dispatch_total by blast
  show ?case
  proof (cases x)
    case None
    with "2.prems" lt d have "scanLines R lines (e + 1) results = Inl err"
      by (simp add: scanLines.simps [of R lines i results])
    with "2.IH"(1) [OF lt d refl None] show ?thesis by simp
  next
    case (Some kt)
    obtain k t where kt: "kt = (k, t)" by (cases kt)
    show ?thesis
    proof (cases "if k = ActorBlock then parseActorBlock R t else R k t")
      case (Inl e')
      with "2.prems" lt d Some kt have e': "e' = err"
        by (simp add: scanLines.simps [of R lines i results])
      show ?thesis
      proof (cases "k = ActorBlock")
        case True
        with Inl e' have "parseActorBlock R t = Inl err" by simp
        with "2.IH"(2) [OF lt d refl Some kt [symmetric] True] show ?thesis by simp
      next
        case False
        with Inl e' have "R k t = Inl err" by simp
        then show ?thesis by blast
      qed
    next
      case (Inr html)
      with "2.prems" lt d Some kt have "scanLines R lines (e + 1) (results @ [html]) = Inl err"
        by (simp add: scanLines.simps [of R lines i results])
      with "2.IH"(3) [OF lt d refl Some kt [symmetric] Inr] show ?thesis by simp
    qed
  qed
next
  case (3 R content)
  then show ?case
    by (auto simp: parseActorBlock.simps [of R content] Let_def split: if_splits sum.splits)
qed

subsection \<open>Termination of the block parser\<close>

text \<open>
  C10 (as amended). \<^verbatim>\<open>parseIronVaultBlock\<close> terminates on every input: the three
  functions above are accepted as total, by the measure that the termination proof gives
  (the length of the text, then the lines left after the cursor), for renderers that
  return or throw. The facts behind it: for a start index inside the lines,
  \<^verbatim>\<open>collectBlock\<close> returns an end index from the start index on and inside the lines,
  and stops before the last line only with a brace count that is not positive; every
  iteration of the loop continues at the end index plus one, strictly beyond the cursor;
  \<^verbatim>\<open>parseActorBlock\<close> on the block of an actor line calls \<^verbatim>\<open>parseIronVaultBlock\<close>
  only on a text strictly shorter than the block, the trimmed text strictly between the
  first opening and the last closing brace when the opening brace comes first, and the
  trimmed text from the last closing brace through the first opening brace otherwise;
  and the scanner returns its article unless a statement renderer throws, the exception
  it then passes on being that renderer's.
\<close>

theorem scanner_terminates:
  "(i < length lines \<longrightarrow>
      (\<exists>content e. collectBlock lines i = Inr (content, e) \<and> i \<le> e \<and> e < length lines
         \<and> (e + 1 < length lines \<longrightarrow>
              sum_list (map braceDelta (take (e + 1 - i) (drop i lines))) \<le> 0))
      \<and> (\<exists>x e. dispatch lines i = Inr (x, e) \<and> i < e + 1 \<and> e + 1 \<le> length lines
            \<and> scanLines R lines i results =
                (case x of
                   None \<Rightarrow> scanLines R lines (e + 1) results
                 | Some (k, t) \<Rightarrow>
                     (case (if k = ActorBlock then parseActorBlock R t else R k t) of
                        Inl err \<Rightarrow> Inl err
                      | Inr html \<Rightarrow> scanLines R lines (e + 1) (results @ [html])))))
   \<and> (dispatch lines i = Inr (Some (ActorBlock, content), e) \<longrightarrow>
        parseActorBlock R content =
          (if indexOf content (CHR ''{'') \<noteq> - 1 \<and> lastIndexOf content (CHR ''}'') \<noteq> - 1
              \<and> braceInner content \<noteq> []
           then (case parseIronVaultBlock R (braceInner content) of
                   Inl err \<Rightarrow> Inl err
                 | Inr html \<Rightarrow> Inr (actorSection content (stripArticle html)))
           else Inr (actorSection content []))
        \<and> (indexOf content (CHR ''{'') \<noteq> - 1 \<and> lastIndexOf content (CHR ''}'') \<noteq> - 1 \<longrightarrow>
             length (braceInner content) < length content
             \<and> (indexOf content (CHR ''{'') < lastIndexOf content (CHR ''}'') \<longrightarrow>
                  braceInner content =
                    trim (take (nat (lastIndexOf content (CHR ''}'') - (indexOf content (CHR ''{'') + 1)))
                            (drop (nat (indexOf content (CHR ''{'') + 1)) content)))
             \<and> (lastIndexOf content (CHR ''}'') < indexOf content (CHR ''{'') \<longrightarrow>
                  braceInner content =
                    trim (take (nat (indexOf content (CHR ''{'') + 1 - lastIndexOf content (CHR ''}'')))
                            (drop (nat (lastIndexOf content (CHR ''}''))) content)))))
   \<and> (parseIronVaultBlock R text0 = Inl err \<longrightarrow> (\<exists>k s. R k s = Inl err))
   \<and> ((\<forall>k s. \<exists>h. R k s = Inr h) \<longrightarrow> (\<exists>html. parseIronVaultBlock R text0 = Inr html))"
proof -
  have collect: "\<exists>content e. collectBlock lines i = Inr (content, e) \<and> i \<le> e \<and> e < length lines
         \<and> (e + 1 < length lines \<longrightarrow>
              sum_list (map braceDelta (take (e + 1 - i) (drop i lines))) \<le> 0)"
    if lt: "i < length lines"
  proof -
    from collectBlock_total [OF lt] obtain c e where cb: "collectBlock lines i = Inr (c, e)"
      by blast
    from collectBlock_Inr(2,3) [OF cb] collectBlock_count [OF cb] cb show ?thesis by blast
  qed
  have cursor: "\<exists>x e. dispatch lines i = Inr (x, e) \<and> i < e + 1 \<and> e + 1 \<le> length lines
            \<and> scanLines R lines i results =
                (case x of
                   None \<Rightarrow> scanLines R lines (e + 1) results
                 | Some (k, t) \<Rightarrow>
                     (case (if k = ActorBlock then parseActorBlock R t else R k t) of
                        Inl err \<Rightarrow> Inl err
                      | Inr html \<Rightarrow> scanLines R lines (e + 1) (results @ [html])))"
    if lt: "i < length lines"
  proof -
    from dispatch_total [OF lt] obtain x e where d: "dispatch lines i = Inr (x, e)" by blast
    from dispatch_bounds [OF d] have b: "i < e + 1 \<and> e + 1 \<le> length lines" by simp
    have "scanLines R lines i results =
                (case x of
                   None \<Rightarrow> scanLines R lines (e + 1) results
                 | Some (k, t) \<Rightarrow>
                     (case (if k = ActorBlock then parseActorBlock R t else R k t) of
                        Inl err \<Rightarrow> Inl err
                      | Inr html \<Rightarrow> scanLines R lines (e + 1) (results @ [html])))"
      using lt d by (simp add: scanLines.simps [of R lines i results])
    with d b show ?thesis by blast
  qed
  have actor: "parseActorBlock R content =
          (if indexOf content (CHR ''{'') \<noteq> - 1 \<and> lastIndexOf content (CHR ''}'') \<noteq> - 1
              \<and> braceInner content \<noteq> []
           then (case parseIronVaultBlock R (braceInner content) of
                   Inl err \<Rightarrow> Inl err
                 | Inr html \<Rightarrow> Inr (actorSection content (stripArticle html)))
           else Inr (actorSection content []))"
    by (simp add: parseActorBlock.simps [of R content] Let_def)
  have inner: "length (braceInner content) < length content
             \<and> (indexOf content (CHR ''{'') < lastIndexOf content (CHR ''}'') \<longrightarrow>
                  braceInner content =
                    trim (take (nat (lastIndexOf content (CHR ''}'') - (indexOf content (CHR ''{'') + 1)))
                            (drop (nat (indexOf content (CHR ''{'') + 1)) content)))
             \<and> (lastIndexOf content (CHR ''}'') < indexOf content (CHR ''{'') \<longrightarrow>
                  braceInner content =
                    trim (take (nat (indexOf content (CHR ''{'') + 1 - lastIndexOf content (CHR ''}'')))
                            (drop (nat (lastIndexOf content (CHR ''}''))) content)))"
    if d: "dispatch lines i = Inr (Some (ActorBlock, content), e)"
      and br: "indexOf content (CHR ''{'') \<noteq> - 1 \<and> lastIndexOf content (CHR ''}'') \<noteq> - 1"
  proof -
    from dispatch_actor [OF d] actor_block_size [of lines i content e]
    have "actorSize content < length content" by blast
    with br have "length (braceInner content) < length content"
      by (simp add: actorSize_def)
    with braceInner_between [of content] br show ?thesis by blast
  qed
  have errs: "parseIronVaultBlock R text0 = Inl err \<longrightarrow> (\<exists>k s. R k s = Inl err)"
    using scanner_errors(1) [of R text0 err] by blast
  have returns: "(\<forall>k s. \<exists>h. R k s = Inr h) \<longrightarrow> (\<exists>html. parseIronVaultBlock R text0 = Inr html)"
  proof
    assume ok: "\<forall>k s. \<exists>h. R k s = Inr h"
    show "\<exists>html. parseIronVaultBlock R text0 = Inr html"
    proof (cases "parseIronVaultBlock R text0")
      case (Inl e')
      from scanner_errors(1) [OF Inl] obtain k s where "R k s = Inl e'" by blast
      with ok show ?thesis by (metis sum.distinct(1))
    next
      case (Inr html)
      then show ?thesis by blast
    qed
  qed
  from collect cursor actor inner errs returns show ?thesis by blast
qed

theorem scanner_terminates_witness:
  \<open>(\<exists>content e. collectBlock [''actor name="[[a/b|Bob]]" {'', ''  - hi'', ''}'', ''xp from=1 to=2''] 0 =
        Inr (content, e) \<and> 0 \<le> e \<and> e < 4)
   \<and> length (braceInner (''actor name="[[a/b|Bob]]" {'' @ ''\<newline>'' @ ''  - hi'' @ ''\<newline>'' @ ''}''))
       < length (''actor name="[[a/b|Bob]]" {'' @ ''\<newline>'' @ ''  - hi'' @ ''\<newline>'' @ ''}'')
   \<and> parseIronVaultBlock (\<lambda>k s. Inr (''<p>'' @ s @ ''</p>''))
        (''actor name="[[a/b|Bob]]" {'' @ ''\<newline>'' @ ''  - hi'' @ ''\<newline>'' @ ''}'' @ ''\<newline>'' @
         ''xp from=1 to=2'') =
       Inr (''<article class="iron-vault-mechanics">'' @
            ''<section class="actor">\<newline>'' @
            ''    <header><span><a href="/a/b">Bob</a></span></header>\<newline>'' @
            ''    <div><p>- hi</p></div>\<newline>'' @
            ''  </section>'' @
            ''<p>xp from=1 to=2</p>'' @
            ''</article>'')\<close>
proof -
  let ?lines = \<open>[''actor name="[[a/b|Bob]]" {'', ''  - hi'', ''}'', ''xp from=1 to=2'']\<close>
  let ?block = \<open>''actor name="[[a/b|Bob]]" {'' @ ''\<newline>'' @ ''  - hi'' @ ''\<newline>'' @ ''}''\<close>
  let ?R = "(\<lambda>k s. Inr (''<p>'' @ s @ ''</p>'')) :: renderers"
  have lt: "0 < length ?lines" by simp
  have d: "dispatch ?lines 0 = Inr (Some (ActorBlock, ?block), 2)" by code_simp
  have br: "indexOf ?block (CHR ''{'') \<noteq> - 1 \<and> lastIndexOf ?block (CHR ''}'') \<noteq> - 1"
    by code_simp
  have ev: \<open>parseIronVaultBlock ?R
        (''actor name="[[a/b|Bob]]" {'' @ ''\<newline>'' @ ''  - hi'' @ ''\<newline>'' @ ''}'' @ ''\<newline>'' @
         ''xp from=1 to=2'') =
       Inr (''<article class="iron-vault-mechanics">'' @
            ''<section class="actor">\<newline>'' @
            ''    <header><span><a href="/a/b">Bob</a></span></header>\<newline>'' @
            ''    <div><p>- hi</p></div>\<newline>'' @
            ''  </section>'' @
            ''<p>xp from=1 to=2</p>'' @
            ''</article>'')\<close>
    by code_simp
  from scanner_terminates [of 0 ?lines ?R "[]" ?block 2 "[]" TypeError] lt d br
  have "(\<exists>content e. collectBlock ?lines 0 = Inr (content, e) \<and> 0 \<le> e \<and> e < 4)
        \<and> length (braceInner ?block) < length ?block"
    by auto
  with ev show ?thesis by blast
qed

theorem actor_swapped_braces_counterexample:
  \<open>dispatch [''actor } {''] 0 = Inr (Some (ActorBlock, ''actor } {''), 0)
   \<and> indexOf ''actor } {'' (CHR ''{'') = 8
   \<and> lastIndexOf ''actor } {'' (CHR ''}'') = 6
   \<and> braceInner ''actor } {'' = ''} {''
   \<and> parseIronVaultBlock (\<lambda>k s. Inr s) ''} {'' = Inr ''<article class="iron-vault-mechanics"></article>''
   \<and> parseIronVaultBlock (\<lambda>k s. Inr s) ''actor } {'' =
       Inr (''<article class="iron-vault-mechanics">'' @
            ''<section class="actor">\<newline>'' @
            ''    <header><span>Actor</span></header>\<newline>'' @
            ''    <div></div>\<newline>'' @
            ''  </section>'' @
            ''</article>'')\<close>
  by code_simp

end
